theory Spec2Isabelle
  imports Main
begin

section \<open>Session token manager of the SaaS admin backend\<close>

text \<open>
  A shallow embedding of \<^verbatim>\<open>AuthService\<close> (register, login, refreshToken, logout,
  generateTokens and the three private helpers), of \<^verbatim>\<open>AuditService.log\<close> and of the
  \<^verbatim>\<open>authenticate\<close> middleware.

  Conventions of the embedding.
  \<^item> A \<^verbatim>\<open>Date\<close> is its number of milliseconds since the epoch, a \<open>nat\<close>. Each
    operation takes the instant \<open>now\<close> of the call: every \<^verbatim>\<open>new Date()\<close> and
    \<^verbatim>\<open>Date.now()\<close> inside one call reads that instant.
  \<^item> A thrown exception is the left summand of the result; the store after the call is
    returned in both cases, because login writes to the store before it throws.
  \<^item> The relational store is a record of tables, each table a list of rows in insertion
    order; \<^verbatim>\<open>findFirst\<close> and \<^verbatim>\<open>findUnique\<close> return the first matching row.
  \<^item> The libraries (bcrypt, jsonwebtoken), the process environment and the answers the
    store gives during one call (generated identifiers, whether the audit insert fails)
    are the fields of an environment record passed to every operation.
  \<^item> A string is a list of code units below 256.
\<close>

subsection \<open>Data model\<close>

type_synonym DateTime = nat

datatype UserRole = SUPER_ADMIN | TENANT_ADMIN | USER | VIEWER

datatype UserStatus = ACTIVE | INACTIVE | SUSPENDED | PENDING

text \<open>The classes of \<^verbatim>\<open>types/index.ts\<close> that extend \<^verbatim>\<open>AppError\<close>.\<close>

datatype ErrorClass =
    ValidationError
  | UnauthorizedError
  | ForbiddenError
  | NotFoundError
  | ConflictError
  | TooManyRequestsError

fun statusCode :: "ErrorClass \<Rightarrow> nat" where
  "statusCode ValidationError = 400"
| "statusCode UnauthorizedError = 401"
| "statusCode ForbiddenError = 403"
| "statusCode NotFoundError = 404"
| "statusCode ConflictError = 409"
| "statusCode TooManyRequestsError = 429"

text \<open>
  What an operation can throw: an \<^verbatim>\<open>AppError\<close> of some class with its message, the
  store client's own error with its code (\<^verbatim>\<open>P2002\<close> unique constraint,
  \<^verbatim>\<open>P2025\<close> record to update not found), or a plain \<^verbatim>\<open>Error\<close> with its message
  (what \<^verbatim>\<open>jwt.sign\<close> throws).
\<close>

datatype Exception =
    AppError ErrorClass string
  | PrismaClientKnownRequestError string
  | Error string

record Tenant =
  tenant_id :: string
  tenant_name :: string
  slug :: string
  plan :: string
  tenant_status :: string
  trialEndsAt :: "DateTime option"
  maxUsers :: nat
  maxApiCalls :: nat
  maxStorage :: nat

record UserWithoutPassword =
  user_id :: string
  tenantId :: "string option"
  email :: string
  firstName :: string
  lastName :: string
  role :: UserRole
  status :: UserStatus
  emailVerified :: bool
  failedLoginAttempts :: nat
  lockedUntil :: "DateTime option"
  lastLoginAt :: "DateTime option"
  lastLoginIp :: "string option"

record User = UserWithoutPassword +
  passwordHash :: string

record RefreshToken =
  rt_userId :: string
  token :: string
  expiresAt :: DateTime
  revokedAt :: "DateTime option"
  replacedBy :: "string option"

record CreateAuditLogDto =
  audit_tenantId :: "string option"
  audit_userId :: "string option"
  action :: string
  resource :: string
  resourceId :: "string option"
  description :: string
  ipAddress :: "string option"

record JWTPayload =
  jwt_userId :: string
  jwt_email :: string
  jwt_role :: UserRole
  jwt_tenantId :: "string option"

record AuthTokens =
  accessToken :: string
  refreshToken_of :: string

record LoginDto =
  login_email :: string
  login_password :: string

record RegisterUserDto =
  reg_tenantName :: string
  reg_email :: string
  reg_password :: string
  reg_firstName :: string
  reg_lastName :: string

text \<open>
  The store: the three relational tables the service touches, the audit table, and the
  optional key-value client (\<open>None\<close> when \<^verbatim>\<open>getRedisClient()\<close> returns null), whose
  entries are key, value and the instant at which the entry expires.
\<close>

record State =
  users :: "User list"
  tenants :: "Tenant list"
  refreshTokens :: "RefreshToken list"
  auditLogs :: "CreateAuditLogDto list"
  redis :: "(string \<times> string \<times> DateTime) list option"

record Env =
  bcrypt_compare :: "string \<Rightarrow> string \<Rightarrow> bool"
  bcrypt_hash :: "string \<Rightarrow> nat \<Rightarrow> string"
  jwt_sign :: "JWTPayload \<Rightarrow> string \<Rightarrow> string \<Rightarrow> DateTime \<Rightarrow> string + string"
  jwt_verify :: "string \<Rightarrow> string option \<Rightarrow> DateTime \<Rightarrow> JWTPayload option"
  JWT_SECRET :: "string option"
  JWT_REFRESH_SECRET :: "string option"
  JWT_EXPIRES_IN :: "string option"
  JWT_REFRESH_EXPIRES_IN :: "string option"
  auditLog_create_fails :: bool
  new_tenant_id :: string
  new_user_id :: string

type_synonym 'a result = "(Exception + 'a) \<times> State"

subsection \<open>Store access\<close>

definition findFirst_user_by_email :: "State \<Rightarrow> string \<Rightarrow> User option" where
  "findFirst_user_by_email s e = find (\<lambda>u. email u = e) (users s)"

definition findUnique_user :: "State \<Rightarrow> string \<Rightarrow> User option" where
  "findUnique_user s i = find (\<lambda>u. user_id u = i) (users s)"

definition findUnique_tenant :: "State \<Rightarrow> string \<Rightarrow> Tenant option" where
  "findUnique_tenant s i = find (\<lambda>t. tenant_id t = i) (tenants s)"

definition findUnique_tenant_by_slug :: "State \<Rightarrow> string \<Rightarrow> Tenant option" where
  "findUnique_tenant_by_slug s g = find (\<lambda>t. slug t = g) (tenants s)"

text \<open>The relation \<^verbatim>\<open>include: { tenant: true }\<close> loads with a user.\<close>

definition include_tenant :: "State \<Rightarrow> User \<Rightarrow> Tenant option" where
  "include_tenant s u =
     (case tenantId u of None \<Rightarrow> None | Some t \<Rightarrow> findUnique_tenant s t)"

definition update_user :: "string \<Rightarrow> (User \<Rightarrow> User) \<Rightarrow> State \<Rightarrow> State" where
  "update_user i f s = s\<lparr>users := map (\<lambda>u. if user_id u = i then f u else u) (users s)\<rparr>"

definition findUnique_refreshToken :: "State \<Rightarrow> string \<Rightarrow> RefreshToken option" where
  "findUnique_refreshToken s t = find (\<lambda>r. token r = t) (refreshTokens s)"

text \<open>
  \<^verbatim>\<open>prisma.refreshToken.create\<close>: the column \<^verbatim>\<open>token\<close> is a unique key (the service
  reads it with \<^verbatim>\<open>findUnique\<close>), so inserting a value already stored is refused.
\<close>

definition create_refreshToken :: "RefreshToken \<Rightarrow> State \<Rightarrow> unit result" where
  "create_refreshToken r s =
     (if findUnique_refreshToken s (token r) \<noteq> None
      then (Inl (PrismaClientKnownRequestError ''P2002''), s)
      else (Inr (), s\<lparr>refreshTokens := refreshTokens s @ [r]\<rparr>))"

text \<open>
  \<^verbatim>\<open>prisma.refreshToken.update({ where: { token }, data })\<close>: the row is selected by
  its token alone; a missing row is an error.
\<close>

definition update_refreshToken ::
  "string \<Rightarrow> (RefreshToken \<Rightarrow> RefreshToken) \<Rightarrow> State \<Rightarrow> unit result" where
  "update_refreshToken t f s =
     (if findUnique_refreshToken s t = None
      then (Inl (PrismaClientKnownRequestError ''P2025''), s)
      else (Inr (), s\<lparr>refreshTokens :=
              map (\<lambda>r. if token r = t then f r else r) (refreshTokens s)\<rparr>))"

text \<open>\<^verbatim>\<open>prisma.refreshToken.updateMany\<close>: every matching row, none is not an error.\<close>

definition updateMany_refreshToken ::
  "string \<Rightarrow> (RefreshToken \<Rightarrow> RefreshToken) \<Rightarrow> State \<Rightarrow> State" where
  "updateMany_refreshToken t f s =
     s\<lparr>refreshTokens := map (\<lambda>r. if token r = t then f r else r) (refreshTokens s)\<rparr>"

text \<open>\<^verbatim>\<open>redis.setEx(key, seconds, value)\<close> at instant \<open>now\<close>.\<close>

definition setEx ::
  "string \<Rightarrow> nat \<Rightarrow> string \<Rightarrow> DateTime \<Rightarrow> (string \<times> string \<times> DateTime) list
     \<Rightarrow> (string \<times> string \<times> DateTime) list" where
  "setEx k seconds v now kv =
     (k, v, now + seconds * 1000) # filter (\<lambda>e. fst e \<noteq> k) kv"

text \<open>JavaScript's \<^verbatim>\<open>a || b\<close> on an optional string: the empty string is falsy.\<close>

definition truthy :: "string option \<Rightarrow> bool" where
  "truthy x = (case x of None \<Rightarrow> False | Some v \<Rightarrow> v \<noteq> [])"

definition or_undefined :: "string option \<Rightarrow> string option" where
  "or_undefined x = (if truthy x then x else None)"

definition or_default :: "string option \<Rightarrow> string \<Rightarrow> string" where
  "or_default x d = (case x of None \<Rightarrow> d | Some v \<Rightarrow> if v = [] then d else v)"

subsection \<open>AuditService.log\<close>

text \<open>
  The insert into the audit table is inside \<^verbatim>\<open>try\<close>; the \<^verbatim>\<open>catch\<close> logs and does
  not rethrow, so the call returns normally whether or not the insert failed.
\<close>

definition auditService_log :: "Env \<Rightarrow> CreateAuditLogDto \<Rightarrow> State \<Rightarrow> State" where
  "auditService_log env dto s =
     (if auditLog_create_fails env then s else s\<lparr>auditLogs := auditLogs s @ [dto]\<rparr>)"

subsection \<open>AuthService\<close>

text \<open>
  \<^verbatim>\<open>jwt.sign(payload, secret, { expiresIn })\<close> at instant \<open>now\<close>. The secret is read
  from the process environment and may be unset; the library throws a plain
  \<^verbatim>\<open>Error\<close> when the secret is missing or empty, and when it rejects its arguments (a
  lifetime it cannot parse), which is the environment's signer answering \<open>Inl\<close> with
  the message.
\<close>

definition sign :: "Env \<Rightarrow> JWTPayload \<Rightarrow> string option \<Rightarrow> string \<Rightarrow> DateTime \<Rightarrow> Exception + string" where
  "sign env payload secret expiresIn now =
     (case secret of
        None \<Rightarrow> Inl (Error ''secretOrPrivateKey must have a value'')
      | Some key \<Rightarrow>
          if key = [] then Inl (Error ''secretOrPrivateKey must have a value'')
          else (case jwt_sign env payload key expiresIn now of
                  Inl message \<Rightarrow> Inl (Error message)
                | Inr value \<Rightarrow> Inr value))"

definition generateTokens :: "Env \<Rightarrow> User \<Rightarrow> DateTime \<Rightarrow> State \<Rightarrow> AuthTokens result" where
  "generateTokens env user now s =
     (let payload = \<lparr>jwt_userId = user_id user, jwt_email = email user,
                      jwt_role = role user, jwt_tenantId = tenantId user\<rparr>
      in case sign env payload (JWT_SECRET env) (or_default (JWT_EXPIRES_IN env) ''15m'') now of
           Inl e \<Rightarrow> (Inl e, s)
         | Inr access \<Rightarrow>
             (case sign env payload (JWT_REFRESH_SECRET env)
                     (or_default (JWT_REFRESH_EXPIRES_IN env) ''7d'') now of
                Inl e \<Rightarrow> (Inl e, s)
              | Inr refresh \<Rightarrow>
                  (case create_refreshToken
                          \<lparr>rt_userId = user_id user, token = refresh,
                           expiresAt = now + 7 * 24 * 60 * 60 * 1000,
                           revokedAt = None, replacedBy = None\<rparr> s of
                     (Inl e, s') \<Rightarrow> (Inl e, s')
                   | (Inr u, s') \<Rightarrow>
                       (Inr \<lparr>accessToken = access, refreshToken_of = refresh\<rparr>, s'))))"

subsubsection \<open>The private helpers of register\<close>

text \<open>
  Character classes of the three regular expressions, on code units: \<^verbatim>\<open>\s\<close> (the
  white space below 256), the line terminators that \<^verbatim>\<open>.\<close> does not match, and the
  ASCII ranges.
\<close>

definition is_space :: "char \<Rightarrow> bool" where
  "is_space c = (of_char c \<in> {9, 10, 11, 12, 13, 32, 160 :: nat})"

definition line_terminator :: "char \<Rightarrow> bool" where
  "line_terminator c = (of_char c \<in> {10, 13 :: nat})"

definition is_lower :: "char \<Rightarrow> bool" where
  "is_lower c = (97 \<le> (of_char c :: nat) \<and> (of_char c :: nat) \<le> 122)"

definition is_upper :: "char \<Rightarrow> bool" where
  "is_upper c = (65 \<le> (of_char c :: nat) \<and> (of_char c :: nat) \<le> 90)"

definition is_digit :: "char \<Rightarrow> bool" where
  "is_digit c = (48 \<le> (of_char c :: nat) \<and> (of_char c :: nat) \<le> 57)"

definition is_special :: "char \<Rightarrow> bool" where
  "is_special c = (c \<in> set ''@$!%*?&'')"

text \<open>\<^verbatim>\<open>/^[^\s@]+@[^\s@]+\.[^\s@]+$/\<close>\<close>

definition email_atom :: "char \<Rightarrow> bool" where
  "email_atom c = (\<not> is_space c \<and> c \<noteq> CHR ''@'')"

definition isValidEmail :: "string \<Rightarrow> bool" where
  "isValidEmail e =
     (takeWhile email_atom e \<noteq> [] \<and>
      (case dropWhile email_atom e of
         [] \<Rightarrow> False
       | c # d \<Rightarrow> c = CHR ''@'' \<and> list_all email_atom d \<and> CHR ''.'' \<in> set (butlast (tl d))))"

text \<open>
  \<^verbatim>\<open>/^(?=.*[a-z])(?=.*[A-Z])(?=.*\d)(?=.*[@$!%*?&])[A-Za-z\d@$!%*?&]{8,}$/\<close>: each
  lookahead finds its class before the first line terminator.
\<close>

definition lookahead :: "(char \<Rightarrow> bool) \<Rightarrow> string \<Rightarrow> bool" where
  "lookahead P p = list_ex P (takeWhile (\<lambda>c. \<not> line_terminator c) p)"

definition isStrongPassword :: "string \<Rightarrow> bool" where
  "isStrongPassword p =
     (lookahead is_lower p \<and> lookahead is_upper p \<and> lookahead is_digit p
      \<and> lookahead is_special p
      \<and> list_all (\<lambda>c. is_upper c \<or> is_lower c \<or> is_digit c \<or> is_special c) p
      \<and> length p \<ge> 8)"

text \<open>
  \<^verbatim>\<open>toLowerCase\<close> on a code unit below 256: the ASCII capitals and the Latin-1
  capitals (U+00C0 to U+00DE without the multiplication sign) move up by 32.
\<close>

definition toLowerCase_char :: "char \<Rightarrow> char" where
  "toLowerCase_char c =
     (let n = (of_char c :: nat)
      in if (65 \<le> n \<and> n \<le> 90) \<or> (192 \<le> n \<and> n \<le> 222 \<and> n \<noteq> 215)
         then char_of (n + 32) else c)"

definition slug_char :: "char \<Rightarrow> bool" where
  "slug_char c = (is_lower c \<or> is_digit c)"

text \<open>
  \<^verbatim>\<open>.replace(/[^a-z0-9]+/g, '-')\<close>: every maximal run of other characters becomes
  one hyphen; the flag says whether the previous character belonged to such a run.
\<close>

fun replace_runs :: "bool \<Rightarrow> string \<Rightarrow> string" where
  "replace_runs in_run [] = []"
| "replace_runs in_run (c # cs) =
     (if slug_char c then c # replace_runs False cs
      else if in_run then replace_runs True cs
      else CHR ''-'' # replace_runs True cs)"

definition createSlug :: "string \<Rightarrow> string" where
  "createSlug name =
     take 50
       (rev (dropWhile (\<lambda>c. c = CHR ''-'')
          (rev (dropWhile (\<lambda>c. c = CHR ''-'')
             (replace_runs False (map toLowerCase_char name))))))"

subsubsection \<open>register\<close>

text \<open>
  The inserts of the transaction. The identifiers are primary keys and the slug is a
  unique key (all three are read with \<^verbatim>\<open>findUnique\<close>); the columns the service does
  not set take their defaults.
\<close>

definition create_tenant :: "Tenant \<Rightarrow> State \<Rightarrow> unit result" where
  "create_tenant t s =
     (if findUnique_tenant s (tenant_id t) \<noteq> None \<or> findUnique_tenant_by_slug s (slug t) \<noteq> None
      then (Inl (PrismaClientKnownRequestError ''P2002''), s)
      else (Inr (), s\<lparr>tenants := tenants s @ [t]\<rparr>))"

definition create_user :: "User \<Rightarrow> State \<Rightarrow> unit result" where
  "create_user u s =
     (if findUnique_user s (user_id u) \<noteq> None
      then (Inl (PrismaClientKnownRequestError ''P2002''), s)
      else (Inr (), s\<lparr>users := users s @ [u]\<rparr>))"

text \<open>\<^verbatim>\<open>prisma.$transaction\<close>: when an insert fails nothing of it is kept.\<close>

definition create_tenant_and_user ::
  "Env \<Rightarrow> RegisterUserDto \<Rightarrow> string \<Rightarrow> string \<Rightarrow> DateTime \<Rightarrow> State \<Rightarrow> (Tenant \<times> User) result" where
  "create_tenant_and_user env dto slug_value hash now s =
     (let tenant = \<lparr>tenant_id = new_tenant_id env, tenant_name = reg_tenantName dto,
                     slug = slug_value, plan = ''TRIAL'', tenant_status = ''TRIAL'',
                     trialEndsAt = Some (now + 14 * 24 * 60 * 60 * 1000),
                     maxUsers = 5, maxApiCalls = 1000, maxStorage = 1073741824\<rparr>;
          user = \<lparr>user_id = new_user_id env, tenantId = Some (tenant_id tenant),
                   email = reg_email dto, firstName = reg_firstName dto,
                   lastName = reg_lastName dto, role = TENANT_ADMIN, status = ACTIVE,
                   emailVerified = False, failedLoginAttempts = 0, lockedUntil = None,
                   lastLoginAt = None, lastLoginIp = None, passwordHash = hash\<rparr>
      in case create_tenant tenant s of
           (Inl e, s1) \<Rightarrow> (Inl e, s)
         | (Inr u1, s1) \<Rightarrow>
             (case create_user user s1 of
                (Inl e, s2) \<Rightarrow> (Inl e, s)
              | (Inr u2, s2) \<Rightarrow> (Inr (tenant, user), s2)))"

definition register ::
  "Env \<Rightarrow> RegisterUserDto \<Rightarrow> DateTime \<Rightarrow> State
     \<Rightarrow> (UserWithoutPassword \<times> Tenant option \<times> AuthTokens) result" where
  "register env dto now s =
     (if \<not> isValidEmail (reg_email dto)
      then (Inl (AppError ValidationError ''Invalid email format''), s)
      else if \<not> isStrongPassword (reg_password dto)
      then (Inl (AppError ValidationError
              ''Password must be at least 8 characters with uppercase, lowercase, number, and special character''), s)
      else if findFirst_user_by_email s (reg_email dto) \<noteq> None
      then (Inl (AppError ConflictError ''Email already registered''), s)
      else
        (let slug_value = createSlug (reg_tenantName dto)
         in if findUnique_tenant_by_slug s slug_value \<noteq> None
            then (Inl (AppError ConflictError ''Tenant name already taken''), s)
            else
              (let hash = bcrypt_hash env (reg_password dto) 12
               in case create_tenant_and_user env dto slug_value hash now s of
                    (Inl e, s1) \<Rightarrow> (Inl e, s1)
                  | (Inr (tenant, user), s1) \<Rightarrow>
                      (case generateTokens env user now s1 of
                         (Inl e, s2) \<Rightarrow> (Inl e, s2)
                       | (Inr tokens, s2) \<Rightarrow>
                           (let s3 = auditService_log env
                                       \<lparr>audit_tenantId = Some (tenant_id tenant),
                                        audit_userId = Some (user_id user),
                                        action = ''CREATE'', resource = ''User'',
                                        resourceId = Some (user_id user),
                                        description = ''User registered and tenant created'',
                                        ipAddress = None\<rparr> s2
                            in (Inr (UserWithoutPassword.truncate user, Some tenant, tokens),
                                s3))))))"

subsubsection \<open>login, refreshToken, logout\<close>

definition is_locked :: "User \<Rightarrow> DateTime \<Rightarrow> bool" where
  "is_locked user now = (case lockedUntil user of None \<Rightarrow> False | Some t \<Rightarrow> t > now)"

text \<open>
  The tenant check of login: \<^verbatim>\<open>if (user.tenantId && user.tenant) { ... }\<close>. The value
  is the exception the block throws, if any.
\<close>

definition check_tenant_status :: "State \<Rightarrow> User \<Rightarrow> Exception option" where
  "check_tenant_status s user =
     (if truthy (tenantId user)
      then (case include_tenant s user of
              None \<Rightarrow> None
            | Some tenant \<Rightarrow>
                if tenant_status tenant = ''SUSPENDED''
                then Some (AppError UnauthorizedError ''Tenant account is suspended'')
                else if tenant_status tenant = ''CANCELLED''
                then Some (AppError UnauthorizedError ''Tenant account is cancelled'')
                else None)
      else None)"

definition login ::
  "Env \<Rightarrow> LoginDto \<Rightarrow> string option \<Rightarrow> DateTime \<Rightarrow> State
     \<Rightarrow> (UserWithoutPassword \<times> Tenant option \<times> AuthTokens) result" where
  "login env dto ip now s =
     (case findFirst_user_by_email s (login_email dto) of
        None \<Rightarrow> (Inl (AppError UnauthorizedError ''Invalid credentials''), s)
      | Some user \<Rightarrow>
          if is_locked user now
          then (Inl (AppError UnauthorizedError ''Account is locked. Please try again later.''), s)
          else if \<not> bcrypt_compare env (login_password dto) (passwordHash user)
          then
            (let failedAttempts = failedLoginAttempts user + 1;
                 s1 = update_user (user_id user)
                        (\<lambda>u. if failedAttempts \<ge> 5
                              then u\<lparr>failedLoginAttempts := failedAttempts,
                                     lockedUntil := Some (now + 15 * 60 * 1000)\<rparr>
                              else u\<lparr>failedLoginAttempts := failedAttempts\<rparr>) s;
                 s2 = auditService_log env
                        \<lparr>audit_tenantId = or_undefined (tenantId user),
                         audit_userId = Some (user_id user),
                         action = ''LOGIN_FAILED'', resource = ''User'',
                         resourceId = Some (user_id user),
                         description = ''Failed login attempt'',
                         ipAddress = ip\<rparr> s1
             in (Inl (AppError UnauthorizedError ''Invalid credentials''), s2))
          else if status user \<noteq> ACTIVE
          then (Inl (AppError UnauthorizedError ''Account is not active''), s)
          else
            (case check_tenant_status s user of
               Some e \<Rightarrow> (Inl e, s)
             | None \<Rightarrow>
                (let s1 = update_user (user_id user)
                            (\<lambda>u. u\<lparr>lastLoginAt := Some now,
                                   lastLoginIp := (case ip of None \<Rightarrow> lastLoginIp u
                                                   | Some a \<Rightarrow> Some a),
                                   failedLoginAttempts := 0, lockedUntil := None\<rparr>) s
                 in case generateTokens env user now s1 of
                      (Inl e, s2) \<Rightarrow> (Inl e, s2)
                    | (Inr tokens, s2) \<Rightarrow>
                        (let s3 = auditService_log env
                                    \<lparr>audit_tenantId = or_undefined (tenantId user),
                                     audit_userId = Some (user_id user),
                                     action = ''LOGIN'', resource = ''User'',
                                     resourceId = Some (user_id user),
                                     description = ''User logged in successfully'',
                                     ipAddress = ip\<rparr> s2
                         in (Inr (UserWithoutPassword.truncate user,
                                  include_tenant s user, tokens), s3)))))"

text \<open>
  refreshToken, in the two parts between which it writes nothing: the checks (verification
  of the presented value, the stored row, the user), then the rotation (new pair, then the
  update of the presented row). Only \<^verbatim>\<open>jwt.verify\<close> throws a
  \<^verbatim>\<open>JsonWebTokenError\<close> (\<open>None\<close> here), which the \<^verbatim>\<open>catch\<close> turns into
  \<^verbatim>\<open>UnauthorizedError('Invalid refresh token')\<close>; every other exception is rethrown.
\<close>

definition refreshToken_checks :: "Env \<Rightarrow> string \<Rightarrow> DateTime \<Rightarrow> State \<Rightarrow> Exception + User" where
  "refreshToken_checks env tok now s =
     (case jwt_verify env tok (JWT_REFRESH_SECRET env) now of
        None \<Rightarrow> Inl (AppError UnauthorizedError ''Invalid refresh token'')
      | Some decoded \<Rightarrow>
          (case findUnique_refreshToken s tok of
             None \<Rightarrow> Inl (AppError UnauthorizedError ''Invalid refresh token'')
           | Some storedToken \<Rightarrow>
               if revokedAt storedToken \<noteq> None
               then Inl (AppError UnauthorizedError ''Invalid refresh token'')
               else if expiresAt storedToken < now
               then Inl (AppError UnauthorizedError ''Refresh token expired'')
               else (case findUnique_user s (jwt_userId decoded) of
                       None \<Rightarrow> Inl (AppError UnauthorizedError ''User not found or inactive'')
                     | Some user \<Rightarrow>
                         if status user \<noteq> ACTIVE
                         then Inl (AppError UnauthorizedError ''User not found or inactive'')
                         else Inr user)))"

definition refreshToken_rotate ::
  "Env \<Rightarrow> User \<Rightarrow> string \<Rightarrow> DateTime \<Rightarrow> State \<Rightarrow> AuthTokens result" where
  "refreshToken_rotate env user tok now s =
     (case generateTokens env user now s of
        (Inl e, s1) \<Rightarrow> (Inl e, s1)
      | (Inr newTokens, s1) \<Rightarrow>
          (case update_refreshToken tok
                  (\<lambda>r. r\<lparr>revokedAt := Some now,
                         replacedBy := Some (refreshToken_of newTokens)\<rparr>) s1 of
             (Inl e, s2) \<Rightarrow> (Inl e, s2)
           | (Inr u, s2) \<Rightarrow> (Inr newTokens, s2)))"

definition refreshToken :: "Env \<Rightarrow> string \<Rightarrow> DateTime \<Rightarrow> State \<Rightarrow> AuthTokens result" where
  "refreshToken env tok now s =
     (case refreshToken_checks env tok now s of
        Inl e \<Rightarrow> (Inl e, s)
      | Inr user \<Rightarrow> refreshToken_rotate env user tok now s)"

definition logout :: "string \<Rightarrow> DateTime \<Rightarrow> State \<Rightarrow> unit result" where
  "logout tok now s =
     (let s1 = updateMany_refreshToken tok (\<lambda>r. r\<lparr>revokedAt := Some now\<rparr>) s
      in case redis s1 of
           None \<Rightarrow> (Inr (), s1)
         | Some kv \<Rightarrow>
             (Inr (), s1\<lparr>redis := Some (setEx (''blacklist:'' @ tok)
                                        (7 * 24 * 60 * 60) ''1'' now kv)\<rparr>))"

subsection \<open>The authenticate middleware\<close>

text \<open>
  \<^verbatim>\<open>authenticate\<close> of \<^verbatim>\<open>auth.middleware\<close>, which guards every protected route: the
  value is the exception passed to \<^verbatim>\<open>next\<close>, or the decoded payload and the tenant
  attached to the request. Its \<^verbatim>\<open>catch\<close> turns a \<^verbatim>\<open>JsonWebTokenError\<close> into
  \<^verbatim>\<open>UnauthorizedError('Invalid token')\<close>. It reads the store and writes nothing.
\<close>

definition authenticate ::
  "Env \<Rightarrow> string option \<Rightarrow> DateTime \<Rightarrow> State \<Rightarrow> Exception + (JWTPayload \<times> Tenant option)" where
  "authenticate env authHeader now s =
     (case authHeader of
        None \<Rightarrow> Inl (AppError UnauthorizedError ''No token provided'')
      | Some header \<Rightarrow>
          if take 7 header \<noteq> ''Bearer ''
          then Inl (AppError UnauthorizedError ''No token provided'')
          else
            (case jwt_verify env (drop 7 header) (JWT_SECRET env) now of
               None \<Rightarrow> Inl (AppError UnauthorizedError ''Invalid token'')
             | Some decoded \<Rightarrow>
                 (case findUnique_user s (jwt_userId decoded) of
                    None \<Rightarrow> Inl (AppError UnauthorizedError ''User not found'')
                  | Some user \<Rightarrow>
                      if status user \<noteq> ACTIVE
                      then Inl (AppError UnauthorizedError ''User account is not active'')
                      else if truthy (tenantId user)
                              \<and> map_option tenant_status (include_tenant s user) = Some ''SUSPENDED''
                      then Inl (AppError ForbiddenError ''Tenant account is suspended'')
                      else if truthy (tenantId user)
                              \<and> map_option tenant_status (include_tenant s user) = Some ''CANCELLED''
                      then Inl (AppError ForbiddenError ''Tenant account is cancelled'')
                      else Inr (decoded, include_tenant s user))))"

subsection \<open>A concrete store and environment\<close>

text \<open>
  One tenant, one active user whose password is \<^verbatim>\<open>Abc123!@\<close>, no key-value client.
  The environment's hash prefixes a dollar sign; its signer concatenates the key, the user
  and one mark per millisecond of the signing instant; its verifier accepts the two values
  signed for the user at instant 0.
\<close>

definition demo_tenant :: Tenant where
  "demo_tenant = \<lparr>tenant_id = ''t1'', tenant_name = ''X Corp'', slug = ''x-corp'',
     plan = ''TRIAL'', tenant_status = ''ACTIVE'', trialEndsAt = None,
     maxUsers = 5, maxApiCalls = 1000, maxStorage = 1073741824\<rparr>"

definition demo_user :: User where
  "demo_user = \<lparr>user_id = ''u1'', tenantId = Some ''t1'', email = ''a@x.com'',
     firstName = ''A'', lastName = ''X'', role = TENANT_ADMIN, status = ACTIVE,
     emailVerified = False, failedLoginAttempts = 0, lockedUntil = None,
     lastLoginAt = None, lastLoginIp = None, passwordHash = ''$Abc123!@''\<rparr>"

definition demo_payload :: JWTPayload where
  "demo_payload = \<lparr>jwt_userId = ''u1'', jwt_email = ''a@x.com'',
     jwt_role = TENANT_ADMIN, jwt_tenantId = Some ''t1''\<rparr>"

definition demo_env :: Env where
  "demo_env = \<lparr>
     bcrypt_compare = (\<lambda>p h. h = CHR ''$'' # p),
     bcrypt_hash = (\<lambda>p rounds. CHR ''$'' # p),
     jwt_sign = (\<lambda>p secret e now.
                   Inr (secret @ '':'' @ jwt_userId p @ '':'' @ replicate now CHR ''+'')),
     jwt_verify = (\<lambda>t secret now.
                     if (t = ''R:u1:'' \<and> secret = Some ''R'') \<or> (t = ''A:u1:'' \<and> secret = Some ''A'')
                     then Some demo_payload else None),
     JWT_SECRET = Some ''A'', JWT_REFRESH_SECRET = Some ''R'',
     JWT_EXPIRES_IN = None, JWT_REFRESH_EXPIRES_IN = None,
     auditLog_create_fails = False,
     new_tenant_id = ''t2'', new_user_id = ''u2''\<rparr>"

definition demo_state :: State where
  "demo_state = \<lparr>users = [demo_user], tenants = [demo_tenant], refreshTokens = [],
     auditLogs = [], redis = None\<rparr>"

definition demo_login :: "string \<Rightarrow> LoginDto" where
  "demo_login p = \<lparr>login_email = ''a@x.com'', login_password = p\<rparr>"

text \<open>The store after a login attempt on the concrete user.\<close>

definition demo_attempt :: "string \<Rightarrow> DateTime \<Rightarrow> State \<Rightarrow> State" where
  "demo_attempt p t s = snd (login demo_env (demo_login p) None t s)"

definition demo_session :: RefreshToken where
  "demo_session = \<lparr>rt_userId = ''u1'', token = ''R:u1:'', expiresAt = 604800000,
     revokedAt = None, replacedBy = None\<rparr>"

text \<open>The concrete store with the refresh record issued to the user at instant 0.\<close>

definition demo_state_session :: State where
  "demo_state_session = demo_state\<lparr>refreshTokens := [demo_session]\<rparr>"

text \<open>The same, with the tenant suspended; with the user locked; with the value denylisted.\<close>

definition demo_suspended :: State where
  "demo_suspended = demo_state_session\<lparr>tenants := [demo_tenant\<lparr>tenant_status := ''SUSPENDED''\<rparr>]\<rparr>"

definition demo_locked :: State where
  "demo_locked = demo_state_session\<lparr>users :=
     [demo_user\<lparr>failedLoginAttempts := 5, lockedUntil := Some 900000\<rparr>]\<rparr>"

definition demo_denylisted :: State where
  "demo_denylisted = demo_state_session\<lparr>redis := Some [(''blacklist:R:u1:'', ''1'', 604800000)]\<rparr>"

text \<open>The same store with the user inactive.\<close>

definition demo_inactive :: State where
  "demo_inactive = demo_state_session\<lparr>users := [demo_user\<lparr>status := INACTIVE\<rparr>]\<rparr>"

text \<open>
  An environment whose signer stamps whole seconds, as the \<^verbatim>\<open>iat\<close> claim of a token
  does: it marks one sign per second of the signing instant. Its verifier accepts the
  refresh value signed for the user during second 1.
\<close>

definition seconds_env :: Env where
  "seconds_env = demo_env\<lparr>
     jwt_sign := (\<lambda>p secret e now.
                    Inr (secret @ '':'' @ jwt_userId p @ '':'' @ replicate (now div 1000) CHR ''+'')),
     jwt_verify := (\<lambda>t secret now.
                      if t = ''R:u1:+'' \<and> secret = Some ''R'' then Some demo_payload else None)\<rparr>"

text \<open>
  The store in which the user holds the refresh row issued at instant 1000 and has since
  been locked, by a fifth failure at instant 1500.
\<close>

definition demo_locked_second :: State where
  "demo_locked_second = demo_state\<lparr>
     users := [demo_user\<lparr>failedLoginAttempts := 5, lockedUntil := Some 901500\<rparr>],
     refreshTokens := [\<lparr>rt_userId = ''u1'', token = ''R:u1:+'', expiresAt = 604801000,
                        revokedAt = None, replacedBy = None\<rparr>]\<rparr>"

subsection \<open>Notions used in the statements\<close>

text \<open>
  The access and refresh values generateTokens signs for \<open>user\<close> at \<open>now\<close>, when both
  signings succeed; the row it stores for a refresh value; and the store refreshToken
  leaves when it succeeds for \<open>user\<close> on \<open>tok\<close> at \<open>now\<close> with the new refresh
  value \<open>k\<close>.
\<close>

definition minted :: "Env \<Rightarrow> User \<Rightarrow> DateTime \<Rightarrow> (string \<times> string) option" where
  "minted env user now =
     (let payload = \<lparr>jwt_userId = user_id user, jwt_email = email user,
                      jwt_role = role user, jwt_tenantId = tenantId user\<rparr>
      in case sign env payload (JWT_SECRET env) (or_default (JWT_EXPIRES_IN env) ''15m'') now of
           Inl e \<Rightarrow> None
         | Inr a \<Rightarrow>
             (case sign env payload (JWT_REFRESH_SECRET env)
                     (or_default (JWT_REFRESH_EXPIRES_IN env) ''7d'') now of
                Inl e \<Rightarrow> None
              | Inr k \<Rightarrow> Some (a, k)))"

definition minted_row :: "User \<Rightarrow> string \<Rightarrow> DateTime \<Rightarrow> RefreshToken" where
  "minted_row user k now =
     \<lparr>rt_userId = user_id user, token = k,
      expiresAt = now + 7 * 24 * 60 * 60 * 1000, revokedAt = None, replacedBy = None\<rparr>"

definition rotated :: "User \<Rightarrow> string \<Rightarrow> string \<Rightarrow> DateTime \<Rightarrow> State \<Rightarrow> State" where
  "rotated user k tok now s =
     s\<lparr>refreshTokens :=
         map (\<lambda>r. if token r = tok then r\<lparr>revokedAt := Some now, replacedBy := Some k\<rparr> else r)
           (refreshTokens s @ [minted_row user k now])\<rparr>"

text \<open>The stored row for a value exists and carries a revocation timestamp.\<close>

definition is_revoked :: "State \<Rightarrow> string \<Rightarrow> bool" where
  "is_revoked s tok =
     (case findUnique_refreshToken s tok of None \<Rightarrow> False | Some r \<Rightarrow> revokedAt r \<noteq> None)"

text \<open>
  The four calls the request layer makes, and the store after serving a list of them one
  after the other, each at its own instant.
\<close>

datatype Request =
    Register Env RegisterUserDto
  | Login Env LoginDto "string option"
  | Refresh Env string
  | Logout string

fun serve :: "Request \<Rightarrow> DateTime \<Rightarrow> State \<Rightarrow> State" where
  "serve (Register env dto) now s = snd (register env dto now s)"
| "serve (Login env dto ip) now s = snd (login env dto ip now s)"
| "serve (Refresh env tok) now s = snd (refreshToken env tok now s)"
| "serve (Logout tok) now s = snd (logout tok now s)"

fun serve_all :: "(Request \<times> DateTime) list \<Rightarrow> State \<Rightarrow> State" where
  "serve_all [] s = s"
| "serve_all ((q, now) # qs) s = serve_all qs (serve q now s)"

text \<open>
  What the request layer gets back from a call: the exception, or the value returned.
\<close>

datatype Response =
    Failure Exception
  | Session UserWithoutPassword "Tenant option" AuthTokens
  | Tokens AuthTokens
  | Done

fun session_response ::
  "Exception + UserWithoutPassword \<times> Tenant option \<times> AuthTokens \<Rightarrow> Response" where
  "session_response (Inl e) = Failure e"
| "session_response (Inr (u, t, k)) = Session u t k"

fun response :: "Request \<Rightarrow> DateTime \<Rightarrow> State \<Rightarrow> Response" where
  "response (Register env dto) now s = session_response (fst (register env dto now s))"
| "response (Login env dto ip) now s = session_response (fst (login env dto ip now s))"
| "response (Refresh env tok) now s =
     (case fst (refreshToken env tok now s) of Inl e \<Rightarrow> Failure e | Inr k \<Rightarrow> Tokens k)"
| "response (Logout tok) now s =
     (case fst (logout tok now s) of Inl e \<Rightarrow> Failure e | Inr u \<Rightarrow> Done)"

text \<open>A request served while the audit insert fails (\<open>True\<close>) or succeeds (\<open>False\<close>).\<close>

fun with_audit_failure :: "bool \<Rightarrow> Request \<Rightarrow> Request" where
  "with_audit_failure b (Register env dto) = Register (env\<lparr>auditLog_create_fails := b\<rparr>) dto"
| "with_audit_failure b (Login env dto ip) = Login (env\<lparr>auditLog_create_fails := b\<rparr>) dto ip"
| "with_audit_failure b (Refresh env tok) = Refresh (env\<lparr>auditLog_create_fails := b\<rparr>) tok"
| "with_audit_failure b (Logout tok) = Logout tok"

text \<open>The store without its audit table.\<close>

definition without_auditLogs :: "State \<Rightarrow> State" where
  "without_auditLogs s = s\<lparr>auditLogs := []\<rparr>"

text \<open>
  Two refreshToken calls that present the same value, A at \<open>nowA\<close> and B at \<open>nowB\<close>,
  interleaved at their \<^verbatim>\<open>await\<close> points so that both finish their checks on the store
  as it is before either starts its rotation; A's rotation then runs before B's. The value
  is the result of A, the result of B and the final store.
\<close>

definition refreshToken_interleaved ::
  "Env \<Rightarrow> string \<Rightarrow> DateTime \<Rightarrow> DateTime \<Rightarrow> State
     \<Rightarrow> (Exception + AuthTokens) \<times> (Exception + AuthTokens) \<times> State" where
  "refreshToken_interleaved env tok nowA nowB s =
     (let checkedA = refreshToken_checks env tok nowA s;
          checkedB = refreshToken_checks env tok nowB s;
          (resultA, s1) = (case checkedA of
                             Inl e \<Rightarrow> (Inl e, s)
                           | Inr user \<Rightarrow> refreshToken_rotate env user tok nowA s);
          (resultB, s2) = (case checkedB of
                             Inl e \<Rightarrow> (Inl e, s1)
                           | Inr user \<Rightarrow> refreshToken_rotate env user tok nowB s1)
      in (resultA, resultB, s2))"

text \<open>The store with every user's failed counter and lock expiry erased.\<close>

definition forget_lock :: "User \<Rightarrow> User" where
  "forget_lock u = u\<lparr>failedLoginAttempts := 0, lockedUntil := None\<rparr>"

definition forget_locks :: "State \<Rightarrow> State" where
  "forget_locks s = s\<lparr>users := map forget_lock (users s)\<rparr>"

text \<open>The class of the exception a result carries, if it is an \<^verbatim>\<open>AppError\<close>.\<close>

fun thrown_class :: "Exception + 'a \<Rightarrow> ErrorClass option" where
  "thrown_class (Inl (AppError c m)) = Some c"
| "thrown_class (Inl (PrismaClientKnownRequestError c)) = None"
| "thrown_class (Inl (Error m)) = None"
| "thrown_class (Inr v) = None"

text \<open>The row a failed password check writes for \<open>u\<close> at \<open>now\<close> (login, lines 139 to 150).\<close>

definition failed_attempt :: "DateTime \<Rightarrow> User \<Rightarrow> User" where
  "failed_attempt now u =
     (if failedLoginAttempts u + 1 \<ge> 5
      then u\<lparr>failedLoginAttempts := failedLoginAttempts u + 1,
             lockedUntil := Some (now + 15 * 60 * 1000)\<rparr>
      else u\<lparr>failedLoginAttempts := failedLoginAttempts u + 1\<rparr>)"

section \<open>Properties\<close>

subsection \<open>Unfolding the service on concrete stores\<close>

lemmas demo_defs = demo_env_def demo_state_def demo_user_def demo_tenant_def demo_payload_def
  demo_session_def demo_state_session_def demo_suspended_def demo_locked_def
  demo_denylisted_def demo_login_def demo_inactive_def seconds_env_def demo_locked_second_def

lemmas service_defs = login_def refreshToken_def refreshToken_checks_def refreshToken_rotate_def
  generateTokens_def sign_def authenticate_def check_tenant_status_def include_tenant_def is_locked_def
  findFirst_user_by_email_def findUnique_user_def findUnique_tenant_def
  findUnique_refreshToken_def create_refreshToken_def update_refreshToken_def
  update_user_def auditService_log_def truthy_def or_undefined_def or_default_def

subsection \<open>Lookups after writes\<close>

lemma find_map_preserved:
  assumes "find P xs = Some x" and "\<And>y. P (g y) = P y"
  shows "find P (map g xs) = Some (g x)"
  using assms by (induction xs) (auto split: if_splits)

lemma findFirst_update_user:
  assumes "findFirst_user_by_email s e = Some u" and "\<And>v. email (f v) = email v"
  shows "findFirst_user_by_email (update_user (user_id u) f s) e = Some (f u)"
proof -
  let ?g = "\<lambda>v. if user_id v = user_id u then f v else v"
  have "find (\<lambda>v. email v = e) (map ?g (users s)) = Some (?g u)"
    using assms by (intro find_map_preserved) (auto simp: findFirst_user_by_email_def)
  then show ?thesis
    by (simp add: findFirst_user_by_email_def update_user_def)
qed

lemma findFirst_auditService_log [simp]:
  "findFirst_user_by_email (auditService_log env dto s) e = findFirst_user_by_email s e"
  by (simp add: findFirst_user_by_email_def auditService_log_def)

lemma login_wrong_password:
  assumes "findFirst_user_by_email s e = Some u"
    and "\<not> is_locked u now"
    and "\<not> bcrypt_compare env p (passwordHash u)"
    and "login env \<lparr>login_email = e, login_password = p\<rparr> ip now s = (r, s')"
  shows "r = Inl (AppError UnauthorizedError ''Invalid credentials'')"
    and "findFirst_user_by_email s' e = Some (failed_attempt now u)"
proof -
  show "r = Inl (AppError UnauthorizedError ''Invalid credentials'')"
    using assms by (simp add: login_def Let_def)
  let ?f = "\<lambda>v::User. if failedLoginAttempts u + 1 \<ge> 5
                              then v\<lparr>failedLoginAttempts := failedLoginAttempts u + 1,
                                     lockedUntil := Some (now + 15 * 60 * 1000)\<rparr>
                              else v\<lparr>failedLoginAttempts := failedLoginAttempts u + 1\<rparr>"
  have "findFirst_user_by_email (update_user (user_id u) ?f s) e = Some (?f u)"
    using assms(1) by (rule findFirst_update_user) simp
  moreover have "?f u = failed_attempt now u" by (simp add: failed_attempt_def)
  moreover have "s' = auditService_log env
                        \<lparr>audit_tenantId = or_undefined (tenantId u),
                         audit_userId = Some (user_id u),
                         action = ''LOGIN_FAILED'', resource = ''User'',
                         resourceId = Some (user_id u),
                         description = ''Failed login attempt'',
                         ipAddress = ip\<rparr> (update_user (user_id u) ?f s)"
    using assms by (auto simp add: login_def Let_def cong: if_cong)
  ultimately show "findFirst_user_by_email s' e = Some (failed_attempt now u)"
    by simp
qed

lemma login_locked:
  assumes "findFirst_user_by_email s (login_email dto) = Some u" and "is_locked u now"
  shows "login env dto ip now s =
           (Inl (AppError UnauthorizedError ''Account is locked. Please try again later.''), s)"
  using assms by (simp add: login_def)

lemma not_locked_later: "\<not> is_locked u t \<Longrightarrow> t \<le> t' \<Longrightarrow> \<not> is_locked u t'"
  by (auto simp: is_locked_def split: option.splits)

lemma failed_attempt_below:
  assumes "failedLoginAttempts u < 4"
  shows "failedLoginAttempts (failed_attempt now u) = failedLoginAttempts u + 1"
    and "lockedUntil (failed_attempt now u) = lockedUntil u"
    and "passwordHash (failed_attempt now u) = passwordHash u"
    and "is_locked (failed_attempt now u) t = is_locked u t"
  using assms by (simp_all add: failed_attempt_def is_locked_def)

lemma failed_attempt_fifth:
  assumes "failedLoginAttempts u = 4"
  shows "failedLoginAttempts (failed_attempt now u) = 5"
    and "lockedUntil (failed_attempt now u) = Some (now + 15 * 60 * 1000)"
  using assms by (simp_all add: failed_attempt_def)

subsection \<open>Lockout after five failures\<close>

text \<open>
  Claim C4. Take an actor whose failed counter is 0 and whose lock is not in force. Five
  consecutive Authenticate calls for it with a wrong secret, at instants that do not
  decrease, all fail with the invalid-credentials error; after the fifth the counter is 5
  and lockExpiry is the instant of the fifth call plus 15 minutes. From then on, at every
  instant before lockExpiry, every Authenticate call for the actor, whatever the secret
  (the correct one included), fails with the account-locked error and leaves the whole
  store, the failed counter with it, as it was.
\<close>

theorem five_failures_lock_account:
  assumes found: "findFirst_user_by_email s0 e = Some u"
    and zero: "failedLoginAttempts u = 0"
    and unlocked: "\<not> is_locked u t1"
    and times: "t1 \<le> t2" "t2 \<le> t3" "t3 \<le> t4" "t4 \<le> t5"
    and wrong: "\<not> bcrypt_compare env p1 (passwordHash u)"
               "\<not> bcrypt_compare env p2 (passwordHash u)"
               "\<not> bcrypt_compare env p3 (passwordHash u)"
               "\<not> bcrypt_compare env p4 (passwordHash u)"
               "\<not> bcrypt_compare env p5 (passwordHash u)"
    and call1: "login env \<lparr>login_email = e, login_password = p1\<rparr> ip t1 s0 = (r1, s1)"
    and call2: "login env \<lparr>login_email = e, login_password = p2\<rparr> ip t2 s1 = (r2, s2)"
    and call3: "login env \<lparr>login_email = e, login_password = p3\<rparr> ip t3 s2 = (r3, s3)"
    and call4: "login env \<lparr>login_email = e, login_password = p4\<rparr> ip t4 s3 = (r4, s4)"
    and call5: "login env \<lparr>login_email = e, login_password = p5\<rparr> ip t5 s4 = (r5, s5)"
  shows "r1 = Inl (AppError UnauthorizedError ''Invalid credentials'')
         \<and> r2 = Inl (AppError UnauthorizedError ''Invalid credentials'')
         \<and> r3 = Inl (AppError UnauthorizedError ''Invalid credentials'')
         \<and> r4 = Inl (AppError UnauthorizedError ''Invalid credentials'')
         \<and> r5 = Inl (AppError UnauthorizedError ''Invalid credentials'')
         \<and> (\<exists>u5. findFirst_user_by_email s5 e = Some u5
              \<and> lockedUntil u5 = Some (t5 + 15 * 60 * 1000)
              \<and> failedLoginAttempts u5 = 5)
         \<and> (\<forall>env' dto ip' t. login_email dto = e \<and> t < t5 + 15 * 60 * 1000 \<longrightarrow>
               login env' dto ip' t s5 =
                 (Inl (AppError UnauthorizedError
                        ''Account is locked. Please try again later.''), s5))"
proof -
  define u1 where "u1 = failed_attempt t1 u"
  define u2 where "u2 = failed_attempt t2 u1"
  define u3 where "u3 = failed_attempt t3 u2"
  define u4 where "u4 = failed_attempt t4 u3"
  define u5 where "u5 = failed_attempt t5 u4"
  have f1: "findFirst_user_by_email s1 e = Some u1"
    unfolding u1_def by (rule login_wrong_password(2)[OF found unlocked wrong(1) call1])
  have r1: "r1 = Inl (AppError UnauthorizedError ''Invalid credentials'')"
    by (rule login_wrong_password(1)[OF found unlocked wrong(1) call1])
  have a1: "failedLoginAttempts u1 = 1" "passwordHash u1 = passwordHash u"
    "\<not> is_locked u1 t2"
    using zero unlocked times not_locked_later[of u t1 t2]
    by (simp_all add: u1_def failed_attempt_below)
  have f2: "findFirst_user_by_email s2 e = Some u2"
    unfolding u2_def using a1 wrong(2)
    by (intro login_wrong_password(2)[OF f1 _ _ call2]) simp_all
  have r2: "r2 = Inl (AppError UnauthorizedError ''Invalid credentials'')"
    using a1 wrong(2)
    by (intro login_wrong_password(1)[OF f1 _ _ call2]) simp_all
  have a2: "failedLoginAttempts u2 = 2" "passwordHash u2 = passwordHash u"
    "\<not> is_locked u2 t3"
    using a1 times not_locked_later[of u1 t2 t3]
    by (simp_all add: u2_def failed_attempt_below)
  have f3: "findFirst_user_by_email s3 e = Some u3"
    unfolding u3_def using a2 wrong(3)
    by (intro login_wrong_password(2)[OF f2 _ _ call3]) simp_all
  have r3: "r3 = Inl (AppError UnauthorizedError ''Invalid credentials'')"
    using a2 wrong(3)
    by (intro login_wrong_password(1)[OF f2 _ _ call3]) simp_all
  have a3: "failedLoginAttempts u3 = 3" "passwordHash u3 = passwordHash u"
    "\<not> is_locked u3 t4"
    using a2 times not_locked_later[of u2 t3 t4]
    by (simp_all add: u3_def failed_attempt_below)
  have f4: "findFirst_user_by_email s4 e = Some u4"
    unfolding u4_def using a3 wrong(4)
    by (intro login_wrong_password(2)[OF f3 _ _ call4]) simp_all
  have r4: "r4 = Inl (AppError UnauthorizedError ''Invalid credentials'')"
    using a3 wrong(4)
    by (intro login_wrong_password(1)[OF f3 _ _ call4]) simp_all
  have a4: "failedLoginAttempts u4 = 4" "passwordHash u4 = passwordHash u"
    "\<not> is_locked u4 t5"
    using a3 times not_locked_later[of u3 t4 t5]
    by (simp_all add: u4_def failed_attempt_below)
  have f5: "findFirst_user_by_email s5 e = Some u5"
    unfolding u5_def using a4 wrong(5)
    by (intro login_wrong_password(2)[OF f4 _ _ call5]) simp_all
  have r5: "r5 = Inl (AppError UnauthorizedError ''Invalid credentials'')"
    using a4 wrong(5)
    by (intro login_wrong_password(1)[OF f4 _ _ call5]) simp_all
  have a5: "failedLoginAttempts u5 = 5" "lockedUntil u5 = Some (t5 + 15 * 60 * 1000)"
    using a4 by (simp_all add: u5_def failed_attempt_fifth)
  have "login env' dto ip' t s5 =
          (Inl (AppError UnauthorizedError ''Account is locked. Please try again later.''), s5)"
    if "login_email dto = e" "t < t5 + 15 * 60 * 1000" for env' dto ip' t
    using that f5 a5 by (intro login_locked[of s5 dto u5]) (simp_all add: is_locked_def)
  with f5 a5 r1 r2 r3 r4 r5 show ?thesis by blast
qed

theorem five_failures_lock_account_witness:
  "map_option lockedUntil
     (findFirst_user_by_email
        (demo_attempt ''no5'' 4 (demo_attempt ''no4'' 3 (demo_attempt ''no3'' 2
          (demo_attempt ''no2'' 1 (demo_attempt ''no1'' 0 demo_state))))) ''a@x.com'')
     = Some (Some 900004)
   \<and> fst (login demo_env (demo_login ''Abc123!@'') None 5
          (demo_attempt ''no5'' 4 (demo_attempt ''no4'' 3 (demo_attempt ''no3'' 2
            (demo_attempt ''no2'' 1 (demo_attempt ''no1'' 0 demo_state))))))
     = Inl (AppError UnauthorizedError ''Account is locked. Please try again later.'')"
proof -
  have found: "findFirst_user_by_email demo_state ''a@x.com'' = Some demo_user"
    by (simp add: findFirst_user_by_email_def demo_state_def demo_user_def)
  have zero: "failedLoginAttempts demo_user = 0"
    by (simp add: demo_user_def)
  have unlocked: "\<not> is_locked demo_user 0"
    by (simp add: is_locked_def demo_user_def)
  have wrong: "\<not> bcrypt_compare demo_env p (passwordHash demo_user)"
    if "p \<noteq> ''Abc123!@''" for p
    using that by (simp add: demo_env_def demo_user_def)
  have call: "login demo_env \<lparr>login_email = ''a@x.com'', login_password = p\<rparr> None t s
                = (fst (login demo_env (demo_login p) None t s), demo_attempt p t s)" for p t s
    by (simp add: demo_attempt_def demo_login_def)
  have le: "(0::nat) \<le> 1" "(1::nat) \<le> 2" "(2::nat) \<le> 3" "(3::nat) \<le> 4"
    by simp_all
  have ne: "''no1'' \<noteq> ''Abc123!@''" "''no2'' \<noteq> ''Abc123!@''" "''no3'' \<noteq> ''Abc123!@''"
    "''no4'' \<noteq> ''Abc123!@''" "''no5'' \<noteq> ''Abc123!@''"
    by simp_all
  note inst = five_failures_lock_account [OF found zero unlocked le
      wrong[OF ne(1)] wrong[OF ne(2)] wrong[OF ne(3)] wrong[OF ne(4)] wrong[OF ne(5)]
      call call call call call]
  let ?S = "demo_attempt ''no5'' 4 (demo_attempt ''no4'' 3 (demo_attempt ''no3'' 2
              (demo_attempt ''no2'' 1 (demo_attempt ''no1'' 0 demo_state))))"
  from inst have "\<exists>u5. findFirst_user_by_email ?S ''a@x.com'' = Some u5
                   \<and> lockedUntil u5 = Some (4 + 15 * 60 * 1000)
                   \<and> failedLoginAttempts u5 = 5"
    by blast
  then have locked: "map_option lockedUntil (findFirst_user_by_email ?S ''a@x.com'')
                       = Some (Some 900004)"
    by auto
  from inst have "\<forall>env' dto ip' t. login_email dto = ''a@x.com'' \<and> t < 4 + 15 * 60 * 1000 \<longrightarrow>
      login env' dto ip' t ?S =
        (Inl (AppError UnauthorizedError ''Account is locked. Please try again later.''), ?S)"
    by blast
  then have "login demo_env (demo_login ''Abc123!@'') None 5 ?S =
        (Inl (AppError UnauthorizedError ''Account is locked. Please try again later.''), ?S)"
    by (simp add: demo_login_def)
  with locked show ?thesis by simp
qed


subsection \<open>Unknown identifier against wrong secret\<close>

text \<open>
  Claim C7, as the code has it. Take two Authenticate calls, in any stores and at any
  instants: one with an identifier for which no actor exists, one with the identifier of an
  existing actor and a secret that does not match. Both fail with an exception of the 401
  class. The first carries the message \<^verbatim>\<open>Invalid credentials\<close>. The second carries
  exactly the same message when the actor's lock is not in force at the call, so that the
  caller cannot tell the missing identifier from the wrong secret; when the lock is in force
  it carries the account-locked message instead.
\<close>

theorem wrong_secret_matches_unknown_identifier_unless_locked:
  assumes "findFirst_user_by_email s1 (login_email dto1) = None"
    and "findFirst_user_by_email s2 (login_email dto2) = Some u"
    and "\<not> bcrypt_compare env2 (login_password dto2) (passwordHash u)"
  shows "fst (login env1 dto1 ip1 now1 s1) = Inl (AppError UnauthorizedError ''Invalid credentials'')
         \<and> fst (login env2 dto2 ip2 now2 s2) =
             Inl (AppError UnauthorizedError
                   (if is_locked u now2 then ''Account is locked. Please try again later.''
                    else ''Invalid credentials''))"
  using assms by (simp add: login_def Let_def)

theorem wrong_secret_matches_unknown_identifier_unless_locked_witness:
  "fst (login demo_env \<lparr>login_email = ''nobody@x.com'', login_password = ''Abc123!@''\<rparr> None 0 demo_state)
     = Inl (AppError UnauthorizedError ''Invalid credentials'')
   \<and> fst (login demo_env (demo_login ''wrong'') None 0 demo_state)
     = Inl (AppError UnauthorizedError ''Invalid credentials'')"
proof -
  have a: "findFirst_user_by_email demo_state
             (login_email \<lparr>login_email = ''nobody@x.com'', login_password = ''Abc123!@''\<rparr>) = None"
    by (simp add: findFirst_user_by_email_def demo_state_def demo_user_def)
  have b: "findFirst_user_by_email demo_state (login_email (demo_login ''wrong'')) = Some demo_user"
    by (simp add: findFirst_user_by_email_def demo_state_def demo_user_def demo_login_def)
  have c: "\<not> is_locked demo_user 0"
    by (simp add: is_locked_def demo_user_def)
  have d: "\<not> bcrypt_compare demo_env (login_password (demo_login ''wrong'')) (passwordHash demo_user)"
    by (simp add: demo_env_def demo_user_def demo_login_def)
  show ?thesis
    using wrong_secret_matches_unknown_identifier_unless_locked [OF a b d, of demo_env None 0 None 0] c
    by simp
qed

text \<open>
  Claim C7, as it is stated, fails on the concrete store whose user is locked: the call with
  an unknown identifier answers \<^verbatim>\<open>Invalid credentials\<close>, the call with the user's
  identifier and a wrong secret answers that the account is locked, and the two results
  differ.
\<close>

theorem locked_account_reveals_identifier_counterexample:
  "fst (login demo_env \<lparr>login_email = ''nobody@x.com'', login_password = ''wrong''\<rparr> None 1 demo_locked)
     = Inl (AppError UnauthorizedError ''Invalid credentials'')
   \<and> fst (login demo_env (demo_login ''wrong'') None 1 demo_locked)
     = Inl (AppError UnauthorizedError ''Account is locked. Please try again later.'')
   \<and> fst (login demo_env (demo_login ''wrong'') None 1 demo_locked)
     \<noteq> fst (login demo_env \<lparr>login_email = ''nobody@x.com'', login_password = ''wrong''\<rparr> None 1 demo_locked)"
  by (simp add: service_defs demo_defs Let_def)

subsection \<open>Tenants that are suspended or cancelled\<close>

lemma check_tenant_status_closed:
  assumes "tenantId u = Some tid" and "tid \<noteq> []" and "findUnique_tenant s tid = Some t"
    and "tenant_status t = ''SUSPENDED'' \<or> tenant_status t = ''CANCELLED''"
  shows "check_tenant_status s u =
           Some (AppError UnauthorizedError
                  (if tenant_status t = ''SUSPENDED'' then ''Tenant account is suspended''
                   else ''Tenant account is cancelled''))"
  using assms by (auto simp: check_tenant_status_def truthy_def include_tenant_def)

text \<open>
  Login for an actor of a tenant whose status is SUSPENDED or CANCELLED, with the correct
  secret: it fails and writes nothing, with the message of the lock or of the inactive
  account when one of those guards trips first, and otherwise with the message that names
  the tenant's condition.
\<close>

lemma closed_tenant_login_fails:
  assumes "findFirst_user_by_email s (login_email dto) = Some u"
    and "tenantId u = Some tid" and "tid \<noteq> []" and "findUnique_tenant s tid = Some t"
    and "tenant_status t = ''SUSPENDED'' \<or> tenant_status t = ''CANCELLED''"
    and "bcrypt_compare env (login_password dto) (passwordHash u)"
  shows "login env dto ip now s =
           (Inl (AppError UnauthorizedError
                  (if is_locked u now then ''Account is locked. Please try again later.''
                   else if status u \<noteq> ACTIVE then ''Account is not active''
                   else if tenant_status t = ''SUSPENDED'' then ''Tenant account is suspended''
                   else ''Tenant account is cancelled'')), s)"
  using assms(1,6) check_tenant_status_closed[OF assms(2-5)]
  by (simp add: login_def)

text \<open>
  Claim C3 on the concrete store whose tenant is suspended. Authenticate with the correct
  secret fails, but the exception is an \<^verbatim>\<open>UnauthorizedError\<close>, the class thrown for a
  wrong secret, where the claim asks for an authorization error of a distinct type. The
  authenticate middleware, on the same store and for the same actor, makes the same check
  and throws \<^verbatim>\<open>ForbiddenError\<close> with the same message.
\<close>

theorem login_suspended_tenant_error_class:
  "fst (login demo_env (demo_login ''Abc123!@'') None 1 demo_suspended)
     = Inl (AppError UnauthorizedError ''Tenant account is suspended'')
   \<and> thrown_class (fst (login demo_env (demo_login ''Abc123!@'') None 1 demo_suspended))
     = thrown_class (fst (login demo_env (demo_login ''wrong'') None 1 demo_suspended))
   \<and> authenticate demo_env (Some ''Bearer A:u1:'') 1 demo_suspended
     = Inl (AppError ForbiddenError ''Tenant account is suspended'')"
  by (simp add: service_defs demo_defs Let_def)

text \<open>
  Claim C1 at the same store. Authenticate with the correct secret is refused because the
  tenant is suspended, but Rotate with the actor's stored refresh value succeeds and returns
  a new pair: refreshToken loads the tenant with the user and never reads its status.
\<close>

theorem refreshToken_ignores_tenant_status:
  "fst (login demo_env (demo_login ''Abc123!@'') None 1 demo_suspended)
     = Inl (AppError UnauthorizedError ''Tenant account is suspended'')
   \<and> fst (refreshToken demo_env ''R:u1:'' 1 demo_suspended)
     = Inr \<lparr>accessToken = ''A:u1:+'', refreshToken_of = ''R:u1:+''\<rparr>"
  by (simp add: service_defs demo_defs Let_def)

subsection \<open>Rotation\<close>

lemma find_append_case:
  "find P (xs @ ys) = (case find P xs of None \<Rightarrow> find P ys | Some x \<Rightarrow> Some x)"
  by (induction xs) auto

lemma find_map_option:
  assumes "\<And>y. P (g y) = P y"
  shows "find P (map g xs) = map_option g (find P xs)"
  using assms by (induction xs) auto

lemma generateTokens_fresh:
  assumes "minted env u now = Some (a, k)" and "findUnique_refreshToken s k = None"
  shows "generateTokens env u now s =
           (Inr \<lparr>accessToken = a, refreshToken_of = k\<rparr>,
            s\<lparr>refreshTokens := refreshTokens s @ [minted_row u k now]\<rparr>)"
  using assms
  by (simp add: generateTokens_def create_refreshToken_def minted_def minted_row_def Let_def
      split: sum.splits)

lemma generateTokens_cases:
  "(\<exists>e. generateTokens env u now s = (Inl e, s))
   \<or> (\<exists>a k. minted env u now = Some (a, k) \<and>
          generateTokens env u now s =
            (Inr \<lparr>accessToken = a, refreshToken_of = k\<rparr>,
             s\<lparr>refreshTokens := refreshTokens s @ [minted_row u k now]\<rparr>))"
  by (simp add: generateTokens_def create_refreshToken_def minted_def minted_row_def Let_def
      split: sum.splits)

lemma refreshToken_checks_pass:
  assumes "jwt_verify env tok (JWT_REFRESH_SECRET env) now = Some d"
    and "findUnique_refreshToken s tok = Some r"
    and "revokedAt r = None" and "now \<le> expiresAt r"
    and "findUnique_user s (jwt_userId d) = Some u" and "status u = ACTIVE"
  shows "refreshToken_checks env tok now s = Inr u"
  using assms by (simp add: refreshToken_checks_def)

lemma refreshToken_rotate_fresh:
  assumes "findUnique_refreshToken s tok = Some r"
    and "minted env u now = Some (a, k)"
    and "findUnique_refreshToken s k = None"
  shows "refreshToken_rotate env u tok now s =
           (Inr \<lparr>accessToken = a, refreshToken_of = k\<rparr>, rotated u k tok now s)"
proof -
  let ?s1 = "s\<lparr>refreshTokens := refreshTokens s @ [minted_row u k now]\<rparr>"
  have "findUnique_refreshToken ?s1 tok = Some r"
    using assms(1) by (simp add: findUnique_refreshToken_def find_append_case)
  then show ?thesis
    using generateTokens_fresh[OF assms(2,3)]
    by (simp add: refreshToken_rotate_def update_refreshToken_def rotated_def)
qed

lemma refreshToken_success:
  assumes "jwt_verify env tok (JWT_REFRESH_SECRET env) now = Some d"
    and "findUnique_refreshToken s tok = Some r"
    and "revokedAt r = None" and "now \<le> expiresAt r"
    and "findUnique_user s (jwt_userId d) = Some u" and "status u = ACTIVE"
    and "minted env u now = Some (a, k)"
    and "findUnique_refreshToken s k = None"
  shows "refreshToken env tok now s =
           (Inr \<lparr>accessToken = a, refreshToken_of = k\<rparr>, rotated u k tok now s)"
  using refreshToken_checks_pass[OF assms(1-6)] refreshToken_rotate_fresh[OF assms(2,7,8)]
  by (simp add: refreshToken_def)

lemma refreshToken_revoked:
  assumes "is_revoked s tok"
  shows "refreshToken env tok now s =
           (Inl (AppError UnauthorizedError ''Invalid refresh token''), s)"
  using assms
  by (auto simp: refreshToken_def refreshToken_checks_def is_revoked_def split: option.splits)

lemma is_revoked_rotated:
  assumes "findUnique_refreshToken s tok = Some r"
  shows "is_revoked (rotated u k tok now s) tok"
proof -
  let ?g = "\<lambda>r. if token r = tok then r\<lparr>revokedAt := Some now, replacedBy := Some k\<rparr> else r"
  have "find (\<lambda>r. token r = tok) (map ?g (refreshTokens s @ [minted_row u k now]))
          = map_option ?g (find (\<lambda>r. token r = tok) (refreshTokens s @ [minted_row u k now]))"
    by (rule find_map_option) simp
  moreover have "find (\<lambda>r. token r = tok) (refreshTokens s @ [minted_row u k now]) = Some r"
    using assms by (simp add: findUnique_refreshToken_def find_append_case)
  moreover have "token r = tok"
    using assms by (auto simp: findUnique_refreshToken_def find_Some_iff)
  ultimately show ?thesis
    by (simp add: is_revoked_def rotated_def findUnique_refreshToken_def)
qed

lemma is_revoked_cong:
  "refreshTokens s' = refreshTokens s \<Longrightarrow> is_revoked s' t = is_revoked s t"
  by (simp add: is_revoked_def findUnique_refreshToken_def)

lemma is_revoked_append:
  "is_revoked s t \<Longrightarrow> refreshTokens s' = refreshTokens s @ rs \<Longrightarrow> is_revoked s' t"
  by (auto simp: is_revoked_def findUnique_refreshToken_def find_append_case split: option.splits)

lemma is_revoked_map:
  assumes "is_revoked s t"
    and "refreshTokens s' = map (\<lambda>r. if token r = k then r\<lparr>revokedAt := Some now, replacedBy := x r\<rparr> else r)
                              (refreshTokens s)"
  shows "is_revoked s' t"
proof -
  let ?g = "\<lambda>r. if token r = k then r\<lparr>revokedAt := Some now, replacedBy := x r\<rparr> else r"
  have "find (\<lambda>r. token r = t) (map ?g (refreshTokens s))
          = map_option ?g (find (\<lambda>r. token r = t) (refreshTokens s))"
    by (rule find_map_option) simp
  then show ?thesis
    using assms by (auto simp: is_revoked_def findUnique_refreshToken_def split: option.splits)
qed

lemma is_revoked_auditService_log [simp]:
  "is_revoked (auditService_log env dto s) t = is_revoked s t"
  by (rule is_revoked_cong) (simp add: auditService_log_def)

lemma is_revoked_update_user [simp]:
  "is_revoked (update_user i f s) t = is_revoked s t"
  by (rule is_revoked_cong) (simp add: update_user_def)

lemma is_revoked_generateTokens:
  assumes "generateTokens env u now s = (x, s')" and "is_revoked s t"
  shows "is_revoked s' t"
proof -
  from generateTokens_cases[of env u now s] assms(1)
  have "s' = s \<or> (\<exists>k. refreshTokens s' = refreshTokens s @ [minted_row u k now])"
    by auto
  then show ?thesis
    using assms(2) by (auto intro: is_revoked_append)
qed

lemma is_revoked_login:
  assumes "is_revoked s t" shows "is_revoked (snd (login env dto ip now s)) t"
proof (cases "findFirst_user_by_email s (login_email dto)")
  case None
  then show ?thesis using assms by (simp add: login_def)
next
  case (Some user)
  show ?thesis
  proof (cases "is_locked user now \<or> \<not> bcrypt_compare env (login_password dto) (passwordHash user)
                \<or> status user \<noteq> ACTIVE \<or> check_tenant_status s user \<noteq> None")
    case True
    then show ?thesis using Some assms by (auto simp: login_def Let_def)
  next
    case False
    let ?s1 = "update_user (user_id user)
                 (\<lambda>u. u\<lparr>lastLoginAt := Some now,
                        lastLoginIp := (case ip of None \<Rightarrow> lastLoginIp u | Some a \<Rightarrow> Some a),
                        failedLoginAttempts := 0, lockedUntil := None\<rparr>) s"
    obtain x s2 where g: "generateTokens env user now ?s1 = (x, s2)"
      by (cases "generateTokens env user now ?s1")
    have "is_revoked s2 t"
      using g assms by (intro is_revoked_generateTokens[OF g]) simp
    then show ?thesis
      using Some False g by (cases x) (simp_all add: login_def Let_def)
  qed
qed

lemma is_revoked_update_refreshToken:
  assumes "update_refreshToken tok (\<lambda>r. r\<lparr>revokedAt := Some now, replacedBy := Some y\<rparr>) s = (x, s')"
    and "is_revoked s t"
  shows "is_revoked s' t"
proof (cases "findUnique_refreshToken s tok = None")
  case True
  then show ?thesis using assms by (simp add: update_refreshToken_def)
next
  case False
  then have "refreshTokens s' =
      map (\<lambda>r. if token r = tok then r\<lparr>revokedAt := Some now, replacedBy := Some y\<rparr> else r)
        (refreshTokens s)"
    using assms(1) by (auto simp: update_refreshToken_def)
  with assms(2) show ?thesis
    by (rule is_revoked_map[where x = "\<lambda>r. Some y"])
qed

lemma is_revoked_refreshToken:
  assumes "is_revoked s t" shows "is_revoked (snd (refreshToken env tok now s)) t"
proof (cases "refreshToken_checks env tok now s")
  case (Inl e)
  then show ?thesis using assms by (simp add: refreshToken_def)
next
  case (Inr u)
  obtain x s1 where g: "generateTokens env u now s = (x, s1)"
    by (cases "generateTokens env u now s")
  have s1: "is_revoked s1 t"
    using g assms by (rule is_revoked_generateTokens)
  show ?thesis
  proof (cases x)
    case (Inl e)
    then show ?thesis using Inr g s1 by (simp add: refreshToken_def refreshToken_rotate_def)
  next
    case newTokens: (Inr newTokens)
    obtain y s2 where w: "update_refreshToken tok
        (\<lambda>r. r\<lparr>revokedAt := Some now, replacedBy := Some (refreshToken_of newTokens)\<rparr>) s1 = (y, s2)"
      by (cases "update_refreshToken tok
        (\<lambda>r. r\<lparr>revokedAt := Some now, replacedBy := Some (refreshToken_of newTokens)\<rparr>) s1")
    have "is_revoked s2 t"
      using w s1 by (rule is_revoked_update_refreshToken)
    then show ?thesis
      using Inr g newTokens w
      by (cases y) (simp_all add: refreshToken_def refreshToken_rotate_def)
  qed
qed

lemma is_revoked_logout:
  assumes "is_revoked s t" shows "is_revoked (snd (logout tok now s)) t"
proof -
  let ?s1 = "updateMany_refreshToken tok (\<lambda>r. r\<lparr>revokedAt := Some now\<rparr>) s"
  have "refreshTokens ?s1 =
      map (\<lambda>r. if token r = tok then r\<lparr>revokedAt := Some now, replacedBy := replacedBy r\<rparr> else r)
        (refreshTokens s)"
    by (simp add: updateMany_refreshToken_def)
  with assms have s1: "is_revoked ?s1 t"
    by (rule is_revoked_map)
  show ?thesis
  proof (cases "redis ?s1")
    case None
    then show ?thesis using s1 by (simp add: logout_def Let_def)
  next
    case (Some kv)
    have "is_revoked (?s1\<lparr>redis := Some (setEx (''blacklist:'' @ tok)
                                        (7 * 24 * 60 * 60) ''1'' now kv)\<rparr>) t = is_revoked ?s1 t"
      by (rule is_revoked_cong) simp
    then show ?thesis using s1 Some by (simp add: logout_def Let_def)
  qed
qed

lemma is_revoked_create_tenant_and_user:
  "is_revoked (snd (create_tenant_and_user env dto g h now s)) t = is_revoked s t"
  by (rule is_revoked_cong)
     (simp add: create_tenant_and_user_def create_tenant_def create_user_def Let_def)

lemma is_revoked_register:
  assumes "is_revoked s t" shows "is_revoked (snd (register env dto now s)) t"
proof (cases "\<not> isValidEmail (reg_email dto) \<or> \<not> isStrongPassword (reg_password dto)
              \<or> findFirst_user_by_email s (reg_email dto) \<noteq> None
              \<or> findUnique_tenant_by_slug s (createSlug (reg_tenantName dto)) \<noteq> None")
  case True
  then show ?thesis using assms by (auto simp: register_def Let_def)
next
  case False
  obtain x s1 where c: "create_tenant_and_user env dto (createSlug (reg_tenantName dto))
                          (bcrypt_hash env (reg_password dto) 12) now s = (x, s1)"
    by (cases "create_tenant_and_user env dto (createSlug (reg_tenantName dto))
                          (bcrypt_hash env (reg_password dto) 12) now s")
  have s1: "is_revoked s1 t"
    using is_revoked_create_tenant_and_user[of env dto "createSlug (reg_tenantName dto)"
        "bcrypt_hash env (reg_password dto) 12" now s t] c assms by simp
  show ?thesis
  proof (cases x)
    case (Inl e)
    then show ?thesis using False c s1 by (simp add: register_def Let_def)
  next
    case (Inr tu)
    obtain tenant user where tu: "tu = (tenant, user)" by (cases tu)
    obtain y s2 where g: "generateTokens env user now s1 = (y, s2)"
      by (cases "generateTokens env user now s1")
    have "is_revoked s2 t"
      using g s1 by (rule is_revoked_generateTokens)
    then show ?thesis
      using False c Inr tu g by (cases y) (simp_all add: register_def Let_def)
  qed
qed

lemma is_revoked_serve:
  "is_revoked s t \<Longrightarrow> is_revoked (serve q now s) t"
  by (cases q)
     (simp_all add: is_revoked_register is_revoked_login is_revoked_refreshToken is_revoked_logout)

lemma is_revoked_serve_all:
  "is_revoked s t \<Longrightarrow> is_revoked (serve_all qs s) t"
  by (induction qs s rule: serve_all.induct) (simp_all add: is_revoked_serve)

lemma refreshToken_Inr_revokes:
  assumes "refreshToken env tok now s = (Inr tokens, s')"
  shows "is_revoked s' tok"
proof -
  from assms obtain u where u: "refreshToken_checks env tok now s = Inr u"
    and rot: "refreshToken_rotate env u tok now s = (Inr tokens, s')"
    by (auto simp: refreshToken_def split: sum.splits)
  from u obtain r where r: "findUnique_refreshToken s tok = Some r"
    by (auto simp: refreshToken_checks_def split: option.splits if_splits)
  have "\<exists>k. s' = rotated u k tok now s"
    using rot generateTokens_cases[of env u now s]
    by (auto simp: refreshToken_rotate_def update_refreshToken_def rotated_def
        split: if_splits)
  then show ?thesis
    using is_revoked_rotated[OF r] by auto
qed

text \<open>
  Claim C2, as the code has it. Take a stored refresh record that was never rotated or
  revoked and has not expired. If its value verifies, its actor exists and is active, the
  new pair is signed and the store accepts the newly minted refresh value, Rotate with its
  value succeeds. And whenever a Rotate call has succeeded, then from the store it leaves,
  after any further requests served at any instants, every Rotate call that presents the
  same value, at whatever instant, fails with \<^verbatim>\<open>Invalid refresh token\<close> and changes
  nothing.
\<close>

theorem rotation_is_one_shot:
  "(jwt_verify env tok (JWT_REFRESH_SECRET env) now = Some d
      \<and> findUnique_refreshToken s tok = Some r \<and> revokedAt r = None \<and> now \<le> expiresAt r
      \<and> findUnique_user s (jwt_userId d) = Some u \<and> status u = ACTIVE
      \<and> minted env u now = Some (a, k) \<and> findUnique_refreshToken s k = None
    \<longrightarrow> refreshToken env tok now s =
          (Inr \<lparr>accessToken = a, refreshToken_of = k\<rparr>, rotated u k tok now s))
   \<and> (refreshToken env tok now s = (Inr tokens, s')
    \<longrightarrow> (\<forall>qs env' now'.
           refreshToken env' tok now' (serve_all qs s') =
             (Inl (AppError UnauthorizedError ''Invalid refresh token''), serve_all qs s')))"
proof (intro conjI impI allI)
  assume "jwt_verify env tok (JWT_REFRESH_SECRET env) now = Some d
      \<and> findUnique_refreshToken s tok = Some r \<and> revokedAt r = None \<and> now \<le> expiresAt r
      \<and> findUnique_user s (jwt_userId d) = Some u \<and> status u = ACTIVE
      \<and> minted env u now = Some (a, k) \<and> findUnique_refreshToken s k = None"
  then show "refreshToken env tok now s =
          (Inr \<lparr>accessToken = a, refreshToken_of = k\<rparr>, rotated u k tok now s)"
    by (intro refreshToken_success[where d = d and r = r]) simp_all
next
  fix qs env' now'
  assume "refreshToken env tok now s = (Inr tokens, s')"
  then have "is_revoked s' tok"
    by (rule refreshToken_Inr_revokes)
  then have "is_revoked (serve_all qs s') tok"
    by (rule is_revoked_serve_all)
  then show "refreshToken env' tok now' (serve_all qs s') =
               (Inl (AppError UnauthorizedError ''Invalid refresh token''), serve_all qs s')"
    by (rule refreshToken_revoked)
qed

theorem rotation_is_one_shot_witness:
  "refreshToken demo_env ''R:u1:'' 1 demo_state_session
     = (Inr \<lparr>accessToken = ''A:u1:+'', refreshToken_of = ''R:u1:+''\<rparr>,
        rotated demo_user ''R:u1:+'' ''R:u1:'' 1 demo_state_session)
   \<and> refreshToken demo_env ''R:u1:'' 2 (rotated demo_user ''R:u1:+'' ''R:u1:'' 1 demo_state_session)
     = (Inl (AppError UnauthorizedError ''Invalid refresh token''),
        rotated demo_user ''R:u1:+'' ''R:u1:'' 1 demo_state_session)"
proof -
  have v: "jwt_verify demo_env ''R:u1:'' (JWT_REFRESH_SECRET demo_env) 1 = Some demo_payload"
    by (simp add: demo_env_def)
  have r: "findUnique_refreshToken demo_state_session ''R:u1:'' = Some demo_session"
    by (simp add: findUnique_refreshToken_def demo_state_session_def demo_session_def)
  have n: "revokedAt demo_session = None" "1 \<le> expiresAt demo_session"
    by (simp_all add: demo_session_def)
  have u: "findUnique_user demo_state_session (jwt_userId demo_payload) = Some demo_user"
    "status demo_user = ACTIVE"
    by (simp_all add: findUnique_user_def demo_state_session_def demo_state_def
        demo_payload_def demo_user_def)
  have m: "minted demo_env demo_user 1 = Some (''A:u1:+'', ''R:u1:+'')"
    by (simp add: minted_def sign_def or_default_def demo_env_def demo_user_def)
  have f: "findUnique_refreshToken demo_state_session ''R:u1:+'' = None"
    by (simp add: findUnique_refreshToken_def demo_state_session_def demo_session_def)
  note inst = rotation_is_one_shot [of demo_env "''R:u1:''" 1 demo_payload demo_state_session
      demo_session demo_user "''A:u1:+''" "''R:u1:+''"
      "\<lparr>accessToken = ''A:u1:+'', refreshToken_of = ''R:u1:+''\<rparr>"
      "rotated demo_user ''R:u1:+'' ''R:u1:'' 1 demo_state_session"]
  from inst v r n u m f
  have first: "refreshToken demo_env ''R:u1:'' 1 demo_state_session
     = (Inr \<lparr>accessToken = ''A:u1:+'', refreshToken_of = ''R:u1:+''\<rparr>,
        rotated demo_user ''R:u1:+'' ''R:u1:'' 1 demo_state_session)"
    by blast
  with inst have "\<forall>qs env' now'.
      refreshToken env' ''R:u1:'' now'
        (serve_all qs (rotated demo_user ''R:u1:+'' ''R:u1:'' 1 demo_state_session)) =
      (Inl (AppError UnauthorizedError ''Invalid refresh token''),
       serve_all qs (rotated demo_user ''R:u1:+'' ''R:u1:'' 1 demo_state_session))"
    by blast
  then have "refreshToken demo_env ''R:u1:'' 2
        (serve_all [] (rotated demo_user ''R:u1:+'' ''R:u1:'' 1 demo_state_session)) =
      (Inl (AppError UnauthorizedError ''Invalid refresh token''),
       serve_all [] (rotated demo_user ''R:u1:+'' ''R:u1:'' 1 demo_state_session))"
    by blast
  with first show ?thesis by simp
qed

text \<open>
  Claim C2, as it is stated, fails on concrete stores whose refresh row was never rotated
  and has not expired. With a signer that stamps whole seconds, the login at instant 1000
  stores the row of its refresh value; the first Rotate of that value at instant 1999,
  within the second of issuance, passes every check, mints the same value again, the store
  refuses the duplicate, and the call fails with the store's error. And when the owner of the row is
  inactive, the first Rotate fails with \<^verbatim>\<open>User not found or inactive\<close>.
\<close>

theorem rotation_succeeds_counterexample:
  "refreshTokens (snd (login seconds_env (demo_login ''Abc123!@'') None 1000 demo_state))
     = [\<lparr>rt_userId = ''u1'', token = ''R:u1:+'', expiresAt = 604801000,
         revokedAt = None, replacedBy = None\<rparr>]
   \<and> \<not> isl (refreshToken_checks seconds_env ''R:u1:+'' 1999
            (snd (login seconds_env (demo_login ''Abc123!@'') None 1000 demo_state)))
   \<and> fst (refreshToken seconds_env ''R:u1:+'' 1999
          (snd (login seconds_env (demo_login ''Abc123!@'') None 1000 demo_state)))
     = Inl (PrismaClientKnownRequestError ''P2002'')
   \<and> fst (refreshToken demo_env ''R:u1:'' 1 demo_inactive)
     = Inl (AppError UnauthorizedError ''User not found or inactive'')"
  by (simp add: service_defs demo_defs Let_def)

subsection \<open>Rotation and the lock\<close>

lemma findUnique_refreshToken_forget_locks [simp]:
  "findUnique_refreshToken (forget_locks s) t = findUnique_refreshToken s t"
  by (simp add: findUnique_refreshToken_def forget_locks_def)

lemma findUnique_user_forget_locks:
  "findUnique_user (forget_locks s) i = map_option forget_lock (findUnique_user s i)"
  unfolding findUnique_user_def forget_locks_def
  by (simp add: find_map_option forget_lock_def)

lemma refreshToken_checks_forget_locks:
  "refreshToken_checks env tok now (forget_locks s) =
     map_sum id forget_lock (refreshToken_checks env tok now s)"
  by (simp add: refreshToken_checks_def findUnique_user_forget_locks forget_lock_def
      split: option.splits)

lemma generateTokens_forget_locks:
  "generateTokens env (forget_lock u) now (forget_locks s) =
     (fst (generateTokens env u now s), forget_locks (snd (generateTokens env u now s)))"
  by (simp add: generateTokens_def create_refreshToken_def forget_lock_def forget_locks_def
      findUnique_refreshToken_def Let_def split: sum.splits)

lemma update_refreshToken_forget_locks:
  "update_refreshToken tok f (forget_locks s) =
     (fst (update_refreshToken tok f s), forget_locks (snd (update_refreshToken tok f s)))"
  by (simp add: update_refreshToken_def forget_locks_def findUnique_refreshToken_def)

lemma refreshToken_rotate_forget_locks:
  "refreshToken_rotate env (forget_lock u) tok now (forget_locks s) =
     (fst (refreshToken_rotate env u tok now s),
      forget_locks (snd (refreshToken_rotate env u tok now s)))"
proof -
  obtain x s1 where g: "generateTokens env u now s = (x, s1)"
    by (cases "generateTokens env u now s")
  then have g': "generateTokens env (forget_lock u) now (forget_locks s) = (x, forget_locks s1)"
    by (simp add: generateTokens_forget_locks)
  show ?thesis
  proof (cases x)
    case (Inl e)
    then show ?thesis using g g' by (simp add: refreshToken_rotate_def)
  next
    case (Inr newTokens)
    obtain y s2 where w: "update_refreshToken tok
        (\<lambda>r. r\<lparr>revokedAt := Some now, replacedBy := Some (refreshToken_of newTokens)\<rparr>) s1 = (y, s2)"
      by (cases "update_refreshToken tok
        (\<lambda>r. r\<lparr>revokedAt := Some now, replacedBy := Some (refreshToken_of newTokens)\<rparr>) s1")
    then have w': "update_refreshToken tok
        (\<lambda>r. r\<lparr>revokedAt := Some now, replacedBy := Some (refreshToken_of newTokens)\<rparr>)
        (forget_locks s1) = (y, forget_locks s2)"
      by (simp add: update_refreshToken_forget_locks)
    show ?thesis
      using Inr g g' w w' by (cases y) (simp_all add: refreshToken_rotate_def)
  qed
qed

lemma refreshToken_forget_locks:
  "refreshToken env tok now (forget_locks s) =
     (fst (refreshToken env tok now s), forget_locks (snd (refreshToken env tok now s)))"
proof (cases "refreshToken_checks env tok now s")
  case (Inl e)
  then show ?thesis
    by (simp add: refreshToken_def refreshToken_checks_forget_locks)
next
  case (Inr u)
  then show ?thesis
    by (simp add: refreshToken_def refreshToken_checks_forget_locks
        refreshToken_rotate_forget_locks)
qed

text \<open>
  Claim C10, as the code has it. Rotate never reads the lock state: on the store in which
  every failed counter and lock expiry is erased it returns what it returns on the store
  itself, and leaves the corresponding store. In particular, for an active actor whose lock
  is in force and a refresh value of that actor that verifies and whose stored row is
  unrevoked and unexpired, Rotate succeeds and returns the new pair whenever the new pair is
  signed and the store accepts the newly minted refresh value.
\<close>

theorem rotate_ignores_lock:
  "refreshToken env tok now (forget_locks s) =
     (fst (refreshToken env tok now s), forget_locks (snd (refreshToken env tok now s)))
   \<and> (jwt_verify env tok (JWT_REFRESH_SECRET env) now = Some d
        \<and> findUnique_refreshToken s tok = Some r \<and> revokedAt r = None \<and> now \<le> expiresAt r
        \<and> findUnique_user s (jwt_userId d) = Some u \<and> status u = ACTIVE \<and> is_locked u now
        \<and> minted env u now = Some (a, k) \<and> findUnique_refreshToken s k = None
      \<longrightarrow> refreshToken env tok now s =
            (Inr \<lparr>accessToken = a, refreshToken_of = k\<rparr>, rotated u k tok now s))"
proof (intro conjI impI)
  show "refreshToken env tok now (forget_locks s) =
     (fst (refreshToken env tok now s), forget_locks (snd (refreshToken env tok now s)))"
    by (rule refreshToken_forget_locks)
next
  assume "jwt_verify env tok (JWT_REFRESH_SECRET env) now = Some d
        \<and> findUnique_refreshToken s tok = Some r \<and> revokedAt r = None \<and> now \<le> expiresAt r
        \<and> findUnique_user s (jwt_userId d) = Some u \<and> status u = ACTIVE \<and> is_locked u now
        \<and> minted env u now = Some (a, k) \<and> findUnique_refreshToken s k = None"
  then show "refreshToken env tok now s =
            (Inr \<lparr>accessToken = a, refreshToken_of = k\<rparr>, rotated u k tok now s)"
    by (intro refreshToken_success[where d = d and r = r]) simp_all
qed

theorem rotate_ignores_lock_witness:
  "login demo_env (demo_login ''Abc123!@'') None 1 demo_locked =
     (Inl (AppError UnauthorizedError ''Account is locked. Please try again later.''), demo_locked)
   \<and> fst (refreshToken demo_env ''R:u1:'' 1 demo_locked)
     = Inr \<lparr>accessToken = ''A:u1:+'', refreshToken_of = ''R:u1:+''\<rparr>"
proof -
  let ?u = "demo_user\<lparr>failedLoginAttempts := 5, lockedUntil := Some 900000\<rparr>"
  have v: "jwt_verify demo_env ''R:u1:'' (JWT_REFRESH_SECRET demo_env) 1 = Some demo_payload"
    by (simp add: demo_env_def)
  have r: "findUnique_refreshToken demo_locked ''R:u1:'' = Some demo_session"
    by (simp add: findUnique_refreshToken_def demo_defs)
  have n: "revokedAt demo_session = None" "1 \<le> expiresAt demo_session"
    by (simp_all add: demo_session_def)
  have u: "findUnique_user demo_locked (jwt_userId demo_payload) = Some ?u"
    "status ?u = ACTIVE" "is_locked ?u 1"
    by (simp_all add: findUnique_user_def is_locked_def demo_defs)
  have m: "minted demo_env ?u 1 = Some (''A:u1:+'', ''R:u1:+'')"
    by (simp add: minted_def sign_def or_default_def demo_defs)
  have f: "findUnique_refreshToken demo_locked ''R:u1:+'' = None"
    by (simp add: findUnique_refreshToken_def demo_defs)
  have l: "login demo_env (demo_login ''Abc123!@'') None 1 demo_locked =
     (Inl (AppError UnauthorizedError ''Account is locked. Please try again later.''), demo_locked)"
    by (simp add: service_defs demo_defs)
  from rotate_ignores_lock [of demo_env "''R:u1:''" 1 demo_locked demo_payload demo_session ?u
      "''A:u1:+''" "''R:u1:+''"] v r n u m f
  have "refreshToken demo_env ''R:u1:'' 1 demo_locked =
          (Inr \<lparr>accessToken = ''A:u1:+'', refreshToken_of = ''R:u1:+''\<rparr>,
           rotated ?u ''R:u1:+'' ''R:u1:'' 1 demo_locked)"
    by blast
  with l show ?thesis by simp
qed

text \<open>
  Claim C10, as it is stated, fails on the concrete store whose user is active and locked
  and holds the refresh row issued at instant 1000: with a signer that stamps whole
  seconds, Rotate at instant 1999 passes every check, mints the value of that row again,
  the store refuses the duplicate, and the call fails with the store's error. Authenticate at that instant is
  refused by the lock.
\<close>

theorem rotate_locked_counterexample:
  "login seconds_env (demo_login ''Abc123!@'') None 1999 demo_locked_second =
     (Inl (AppError UnauthorizedError ''Account is locked. Please try again later.''),
      demo_locked_second)
   \<and> \<not> isl (refreshToken_checks seconds_env ''R:u1:+'' 1999 demo_locked_second)
   \<and> fst (refreshToken seconds_env ''R:u1:+'' 1999 demo_locked_second)
     = Inl (PrismaClientKnownRequestError ''P2002'')"
  by (simp add: service_defs demo_defs Let_def)

subsection \<open>Revocation\<close>

lemma setEx_twice:
  "setEx k n v t2 (setEx k n v t1 kv) = setEx k n v t2 kv"
  by (simp add: setEx_def)

lemma updateMany_twice:
  "updateMany_refreshToken tok (\<lambda>r. r\<lparr>revokedAt := Some t2\<rparr>)
     (updateMany_refreshToken tok (\<lambda>r. r\<lparr>revokedAt := Some t1\<rparr>) s) =
   updateMany_refreshToken tok (\<lambda>r. r\<lparr>revokedAt := Some t2\<rparr>) s"
  by (simp add: updateMany_refreshToken_def)

lemma redis_updateMany [simp]:
  "redis (updateMany_refreshToken tok f s) = redis s"
  by (simp add: updateMany_refreshToken_def)

lemma logout_twice:
  "snd (logout tok t2 (snd (logout tok t1 s))) = snd (logout tok t2 s)"
proof (cases "redis s")
  case None
  then show ?thesis by (simp add: logout_def Let_def updateMany_twice)
next
  case (Some kv)
  have "updateMany_refreshToken tok f (s'\<lparr>redis := x\<rparr>) = (updateMany_refreshToken tok f s')\<lparr>redis := x\<rparr>"
    for f s' x
    by (simp add: updateMany_refreshToken_def)
  then show ?thesis
    using Some by (simp add: logout_def Let_def updateMany_twice setEx_twice)
qed

lemma findUnique_refreshToken_logout:
  "findUnique_refreshToken (snd (logout tok now s)) v =
     map_option (\<lambda>r. if token r = tok then r\<lparr>revokedAt := Some now\<rparr> else r)
       (findUnique_refreshToken s v)"
proof -
  have "find (\<lambda>r. token r = v)
          (map (\<lambda>r. if token r = tok then r\<lparr>revokedAt := Some now\<rparr> else r) (refreshTokens s))
        = map_option (\<lambda>r. if token r = tok then r\<lparr>revokedAt := Some now\<rparr> else r)
            (find (\<lambda>r. token r = v) (refreshTokens s))"
    by (rule find_map_option) simp
  then show ?thesis
    by (simp add: logout_def Let_def findUnique_refreshToken_def updateMany_refreshToken_def
        split: option.splits)
qed

lemma findUnique_refreshToken_token:
  "findUnique_refreshToken s v = Some r \<Longrightarrow> token r = v"
  by (auto simp: findUnique_refreshToken_def find_Some_iff)

lemma is_revoked_after_logout:
  "is_revoked (snd (logout tok now s)) v =
     (if v = tok then findUnique_refreshToken s tok \<noteq> None else is_revoked s v)"
proof (cases "findUnique_refreshToken s v")
  case None
  then show ?thesis
    by (auto simp add: is_revoked_def findUnique_refreshToken_logout)
next
  case (Some r)
  then have "token r = v" by (rule findUnique_refreshToken_token)
  then show ?thesis
    using Some by (auto simp add: is_revoked_def findUnique_refreshToken_logout)
qed

text \<open>
  Claim C6, as the code has it. A second Revoke of the same value produces no error and
  leaves the store a single Revoke at the instant of the second call would leave: the
  revocation timestamp of the matching row and the expiry of the denylist entry are stamped
  again with the later instant, and nothing else changes. In particular the values that
  count as revoked are the same after the second call as after the first, and with equal
  instants the store is identical.
\<close>

theorem logout_twice_restamps:
  "fst (logout tok t2 (snd (logout tok t1 s))) = Inr ()
   \<and> snd (logout tok t2 (snd (logout tok t1 s))) = snd (logout tok t2 s)
   \<and> (\<forall>v. is_revoked (snd (logout tok t2 (snd (logout tok t1 s)))) v
            = is_revoked (snd (logout tok t1 s)) v)"
proof -
  have "fst (logout tok t2 s') = Inr ()" for s'
    by (simp add: logout_def Let_def split: option.splits)
  moreover have "is_revoked (snd (logout tok t2 s)) v = is_revoked (snd (logout tok t1 s)) v" for v
    by (simp add: is_revoked_after_logout)
  ultimately show ?thesis
    by (simp add: logout_twice)
qed

text \<open>
  Claim C6, as it is stated, fails on the concrete store with one refresh row: revoked at
  instant 1 and again at instant 2, the row carries the timestamp 2 and the store differs
  from the one the first call left.
\<close>

theorem logout_twice_identical_counterexample:
  "snd (logout ''R:u1:'' 2 (snd (logout ''R:u1:'' 1 demo_state_session)))
     \<noteq> snd (logout ''R:u1:'' 1 demo_state_session)
   \<and> map_option revokedAt (findUnique_refreshToken (snd (logout ''R:u1:'' 1 demo_state_session)) ''R:u1:'')
       = Some (Some 1)
   \<and> map_option revokedAt (findUnique_refreshToken
          (snd (logout ''R:u1:'' 2 (snd (logout ''R:u1:'' 1 demo_state_session)))) ''R:u1:'')
       = Some (Some 2)"
  by (simp add: logout_def updateMany_refreshToken_def findUnique_refreshToken_def demo_defs Let_def)

text \<open>
  Claim C5, as the code has it. When the key-value client is available, Revoke records the
  value under the key made of \<^verbatim>\<open>blacklist:\<close> and the value itself, replacing any entry
  of that key, with an expiry of 7 days after the call, the expiry generateTokens gives a
  refresh row minted at that instant. When no client is available nothing is recorded.
\<close>

theorem logout_records_denylist:
  "(redis s = Some kv \<longrightarrow>
      redis (snd (logout tok now s)) =
        Some ((''blacklist:'' @ tok, ''1'', expiresAt (minted_row u k now))
              # filter (\<lambda>e. fst e \<noteq> ''blacklist:'' @ tok) kv))
   \<and> (redis s = None \<longrightarrow> redis (snd (logout tok now s)) = None)"
  by (simp add: logout_def Let_def setEx_def minted_row_def)

theorem logout_records_denylist_witness:
  "redis (snd (logout ''R:u1:'' 1 (demo_state_session\<lparr>redis := Some []\<rparr>)))
     = Some [(''blacklist:R:u1:'', ''1'', 604800001)]
   \<and> redis (snd (logout ''R:u1:'' 1 demo_state_session)) = None"
proof -
  have a: "redis (demo_state_session\<lparr>redis := Some []\<rparr>) = Some []" by simp
  have b: "redis demo_state_session = None" by (simp add: demo_defs)
  have c: "expiresAt (minted_row demo_user ''R:u1:+'' 1) = 604800001"
    by (simp add: minted_row_def)
  show ?thesis
    using logout_records_denylist [of "demo_state_session\<lparr>redis := Some []\<rparr>" "[]" "''R:u1:''" 1
        demo_user "''R:u1:+''"]
      logout_records_denylist [of demo_state_session "[]" "''R:u1:''" 1 demo_user "''R:u1:+''"]
      a b c
    by simp
qed

text \<open>
  Claim C5, as it is stated, fails twice on concrete stores. With no key-value client,
  Revoke records nothing. And on the store whose denylist holds an unexpired entry for the
  value while the stored row is unrevoked, Rotate with the value succeeds: refreshToken
  never reads the denylist.
\<close>

theorem denylist_not_consulted_counterexample:
  "redis (snd (logout ''R:u1:'' 1 demo_state_session)) = None
   \<and> redis demo_denylisted = Some [(''blacklist:R:u1:'', ''1'', 604800000)]
   \<and> fst (refreshToken demo_env ''R:u1:'' 1 demo_denylisted)
       = Inr \<lparr>accessToken = ''A:u1:+'', refreshToken_of = ''R:u1:+''\<rparr>"
  by (simp add: logout_def updateMany_refreshToken_def service_defs demo_defs Let_def)


subsection \<open>Two rotations of one value\<close>

lemma findUnique_refreshToken_rotated:
  "findUnique_refreshToken (rotated u k tok now s) t =
     map_option (\<lambda>r. if token r = tok then r\<lparr>revokedAt := Some now, replacedBy := Some k\<rparr> else r)
       (case findUnique_refreshToken s t of
          None \<Rightarrow> if k = t then Some (minted_row u k now) else None
        | Some r \<Rightarrow> Some r)"
proof -
  let ?g = "\<lambda>r. if token r = tok then r\<lparr>revokedAt := Some now, replacedBy := Some k\<rparr> else r"
  have "find (\<lambda>r. token r = t) (map ?g (refreshTokens s @ [minted_row u k now]))
          = map_option ?g (find (\<lambda>r. token r = t) (refreshTokens s @ [minted_row u k now]))"
    by (rule find_map_option) simp
  then show ?thesis
    by (simp add: findUnique_refreshToken_def rotated_def find_append_case minted_row_def
        split: option.splits)
qed

text \<open>
  Claim C8, as the code has it. The write of step 6 is an update selected by the token value
  alone, issued after a separate read, and it overwrites the revocation timestamp and the
  successor whatever they hold. Take a value that passes Rotate's checks at two instants,
  the two newly minted values being distinct and accepted by the store. When the two calls
  interleave so that both finish their checks before either writes, both succeed, and the
  row ends with the timestamp and the successor of the later write. When the second call
  starts after the first has returned, it fails with \<^verbatim>\<open>Invalid refresh token\<close>.
\<close>

theorem interleaved_rotations_both_succeed:
  assumes "jwt_verify env tok (JWT_REFRESH_SECRET env) nowA = Some d"
    and "jwt_verify env tok (JWT_REFRESH_SECRET env) nowB = Some d"
    and "findUnique_refreshToken s tok = Some r"
    and "revokedAt r = None" and "nowA \<le> expiresAt r" and "nowB \<le> expiresAt r"
    and "findUnique_user s (jwt_userId d) = Some u" and "status u = ACTIVE"
    and "minted env u nowA = Some (aA, kA)"
    and "minted env u nowB = Some (aB, kB)"
    and "findUnique_refreshToken s kA = None"
    and "findUnique_refreshToken s kB = None"
    and "kA \<noteq> kB"
  shows "refreshToken_interleaved env tok nowA nowB s =
           (Inr \<lparr>accessToken = aA, refreshToken_of = kA\<rparr>,
            Inr \<lparr>accessToken = aB, refreshToken_of = kB\<rparr>,
            rotated u kB tok nowB (rotated u kA tok nowA s))
         \<and> findUnique_refreshToken (rotated u kB tok nowB (rotated u kA tok nowA s)) tok =
             Some (r\<lparr>revokedAt := Some nowB, replacedBy := Some kB\<rparr>)
         \<and> fst (refreshToken env tok nowB (snd (refreshToken env tok nowA s))) =
             Inl (AppError UnauthorizedError ''Invalid refresh token'')"
proof -
  have tok: "token r = tok"
    using assms(3) by (rule findUnique_refreshToken_token)
  have cA: "refreshToken_checks env tok nowA s = Inr u"
    by (rule refreshToken_checks_pass[OF assms(1,3,4,5,7,8)])
  have cB: "refreshToken_checks env tok nowB s = Inr u"
    by (rule refreshToken_checks_pass[OF assms(2,3,4,6,7,8)])
  let ?s1 = "rotated u kA tok nowA s"
  have rA: "refreshToken_rotate env u tok nowA s =
           (Inr \<lparr>accessToken = aA, refreshToken_of = kA\<rparr>, ?s1)"
    by (rule refreshToken_rotate_fresh[OF assms(3,9,11)])
  have s1_tok: "findUnique_refreshToken ?s1 tok =
      Some (r\<lparr>revokedAt := Some nowA, replacedBy := Some kA\<rparr>)"
    using assms(3) tok by (simp add: findUnique_refreshToken_rotated)
  have s1_new: "findUnique_refreshToken ?s1 kB = None"
    using assms(12,13) by (simp add: findUnique_refreshToken_rotated)
  have rB: "refreshToken_rotate env u tok nowB ?s1 =
           (Inr \<lparr>accessToken = aB, refreshToken_of = kB\<rparr>, rotated u kB tok nowB ?s1)"
    by (rule refreshToken_rotate_fresh[OF s1_tok assms(10) s1_new])
  have both: "refreshToken_interleaved env tok nowA nowB s =
           (Inr \<lparr>accessToken = aA, refreshToken_of = kA\<rparr>,
            Inr \<lparr>accessToken = aB, refreshToken_of = kB\<rparr>,
            rotated u kB tok nowB ?s1)"
    using cA cB rA rB by (simp add: refreshToken_interleaved_def)
  have final: "findUnique_refreshToken (rotated u kB tok nowB ?s1) tok =
             Some (r\<lparr>revokedAt := Some nowB, replacedBy := Some kB\<rparr>)"
    using s1_tok tok by (simp add: findUnique_refreshToken_rotated[of u kB tok nowB ?s1])
  have "refreshToken env tok nowA s =
           (Inr \<lparr>accessToken = aA, refreshToken_of = kA\<rparr>, ?s1)"
    using cA rA by (simp add: refreshToken_def)
  moreover have "is_revoked ?s1 tok"
    using s1_tok by (simp add: is_revoked_def)
  ultimately have seq: "fst (refreshToken env tok nowB (snd (refreshToken env tok nowA s))) =
             Inl (AppError UnauthorizedError ''Invalid refresh token'')"
    by (simp add: refreshToken_revoked)
  from both final seq show ?thesis by simp
qed

theorem interleaved_rotations_both_succeed_witness:
  "refreshToken_interleaved demo_env ''R:u1:'' 1 2 demo_state_session =
     (Inr \<lparr>accessToken = ''A:u1:+'', refreshToken_of = ''R:u1:+''\<rparr>,
      Inr \<lparr>accessToken = ''A:u1:++'', refreshToken_of = ''R:u1:++''\<rparr>,
      rotated demo_user ''R:u1:++'' ''R:u1:'' 2
        (rotated demo_user ''R:u1:+'' ''R:u1:'' 1 demo_state_session))"
proof -
  have v: "jwt_verify demo_env ''R:u1:'' (JWT_REFRESH_SECRET demo_env) 1 = Some demo_payload"
    "jwt_verify demo_env ''R:u1:'' (JWT_REFRESH_SECRET demo_env) 2 = Some demo_payload"
    by (simp_all add: demo_env_def)
  have r: "findUnique_refreshToken demo_state_session ''R:u1:'' = Some demo_session"
    by (simp add: findUnique_refreshToken_def demo_defs)
  have n: "revokedAt demo_session = None" "1 \<le> expiresAt demo_session" "2 \<le> expiresAt demo_session"
    by (simp_all add: demo_session_def)
  have u: "findUnique_user demo_state_session (jwt_userId demo_payload) = Some demo_user"
    "status demo_user = ACTIVE"
    by (simp_all add: findUnique_user_def demo_defs)
  have m: "minted demo_env demo_user 1 = Some (''A:u1:+'', ''R:u1:+'')"
    "minted demo_env demo_user 2 = Some (''A:u1:++'', ''R:u1:++'')"
    by (simp_all add: minted_def sign_def demo_defs or_default_def numeral_2_eq_2)
  have f: "findUnique_refreshToken demo_state_session ''R:u1:+'' = None"
    "findUnique_refreshToken demo_state_session ''R:u1:++'' = None"
    "''R:u1:+'' \<noteq> ''R:u1:++''"
    by (simp_all add: findUnique_refreshToken_def demo_defs)
  show ?thesis
    using interleaved_rotations_both_succeed [OF v r n u m f] by simp
qed

text \<open>
  Claim C8, as it is stated, fails on the concrete store with one refresh row: the two
  interleaved calls both return a new pair, and the second write lands on a row whose
  revocation timestamp is already set.
\<close>

theorem concurrent_rotation_counterexample:
  "fst (refreshToken_interleaved demo_env ''R:u1:'' 1 2 demo_state_session)
     = Inr \<lparr>accessToken = ''A:u1:+'', refreshToken_of = ''R:u1:+''\<rparr>
   \<and> fst (snd (refreshToken_interleaved demo_env ''R:u1:'' 1 2 demo_state_session))
     = Inr \<lparr>accessToken = ''A:u1:++'', refreshToken_of = ''R:u1:++''\<rparr>
   \<and> findUnique_refreshToken
        (snd (snd (refreshToken_interleaved demo_env ''R:u1:'' 1 2 demo_state_session))) ''R:u1:''
     = Some \<lparr>rt_userId = ''u1'', token = ''R:u1:'', expiresAt = 604800000,
             revokedAt = Some 2, replacedBy = Some ''R:u1:++''\<rparr>"
  by (simp add: refreshToken_interleaved_def service_defs demo_defs Let_def numeral_2_eq_2)


subsection \<open>Audit writes are best effort\<close>

lemma sign_audit_flag [simp]:
  "sign (env\<lparr>auditLog_create_fails := b\<rparr>) p secret e now = sign env p secret e now"
  by (simp add: sign_def split: option.splits)

lemma generateTokens_audit_flag [simp]:
  "generateTokens (env\<lparr>auditLog_create_fails := b\<rparr>) u now s = generateTokens env u now s"
  by (simp add: generateTokens_def Let_def split: sum.splits)

lemma without_auditLogs_log [simp]:
  "without_auditLogs (auditService_log env dto s) = without_auditLogs s"
  by (simp add: without_auditLogs_def auditService_log_def)

lemma refreshToken_checks_audit_flag [simp]:
  "refreshToken_checks (env\<lparr>auditLog_create_fails := b\<rparr>) tok now s =
     refreshToken_checks env tok now s"
  by (simp add: refreshToken_checks_def)

lemma refreshToken_rotate_audit_flag [simp]:
  "refreshToken_rotate (env\<lparr>auditLog_create_fails := b\<rparr>) u tok now s =
     refreshToken_rotate env u tok now s"
  by (simp add: refreshToken_rotate_def)

lemma refreshToken_audit_flag:
  "refreshToken (env\<lparr>auditLog_create_fails := b\<rparr>) tok now s = refreshToken env tok now s"
  by (simp add: refreshToken_def split: sum.splits)

lemma login_audit_flag:
  "fst (login (env\<lparr>auditLog_create_fails := b\<rparr>) dto ip now s) = fst (login env dto ip now s)
   \<and> without_auditLogs (snd (login (env\<lparr>auditLog_create_fails := b\<rparr>) dto ip now s))
       = without_auditLogs (snd (login env dto ip now s))"
proof (cases "findFirst_user_by_email s (login_email dto)")
  case None
  then show ?thesis by (simp add: login_def)
next
  case (Some user)
  show ?thesis
  proof (cases "is_locked user now \<or> \<not> bcrypt_compare env (login_password dto) (passwordHash user)
                \<or> status user \<noteq> ACTIVE \<or> check_tenant_status s user \<noteq> None")
    case True
    then show ?thesis using Some by (auto simp: login_def Let_def)
  next
    case False
    let ?s1 = "update_user (user_id user)
                 (\<lambda>u. u\<lparr>lastLoginAt := Some now,
                        lastLoginIp := (case ip of None \<Rightarrow> lastLoginIp u | Some a \<Rightarrow> Some a),
                        failedLoginAttempts := 0, lockedUntil := None\<rparr>) s"
    obtain x s2 where g: "generateTokens env user now ?s1 = (x, s2)"
      by (cases "generateTokens env user now ?s1")
    show ?thesis
      using Some False g by (cases x) (simp_all add: login_def Let_def)
  qed
qed

lemma create_tenant_and_user_audit_flag [simp]:
  "create_tenant_and_user (env\<lparr>auditLog_create_fails := b\<rparr>) dto g h now s =
     create_tenant_and_user env dto g h now s"
  by (simp add: create_tenant_and_user_def)

lemma register_audit_flag:
  "fst (register (env\<lparr>auditLog_create_fails := b\<rparr>) dto now s) = fst (register env dto now s)
   \<and> without_auditLogs (snd (register (env\<lparr>auditLog_create_fails := b\<rparr>) dto now s))
       = without_auditLogs (snd (register env dto now s))"
proof (cases "\<not> isValidEmail (reg_email dto) \<or> \<not> isStrongPassword (reg_password dto)
              \<or> findFirst_user_by_email s (reg_email dto) \<noteq> None
              \<or> findUnique_tenant_by_slug s (createSlug (reg_tenantName dto)) \<noteq> None")
  case True
  then show ?thesis by (auto simp: register_def Let_def)
next
  case False
  obtain x s1 where c: "create_tenant_and_user env dto (createSlug (reg_tenantName dto))
                          (bcrypt_hash env (reg_password dto) 12) now s = (x, s1)"
    by (cases "create_tenant_and_user env dto (createSlug (reg_tenantName dto))
                          (bcrypt_hash env (reg_password dto) 12) now s")
  show ?thesis
  proof (cases x)
    case (Inl e)
    then show ?thesis using False c by (simp add: register_def Let_def)
  next
    case (Inr tu)
    obtain tenant user where tu: "tu = (tenant, user)" by (cases tu)
    obtain y s2 where g: "generateTokens env user now s1 = (y, s2)"
      by (cases "generateTokens env user now s1")
    show ?thesis
      using False c Inr tu g by (cases y) (simp_all add: register_def Let_def)
  qed
qed

lemma audit_failure_is_observable:
  "auditLogs (snd (login (demo_env\<lparr>auditLog_create_fails := True\<rparr>) (demo_login ''wrong'')
                    None 1 demo_state)) = []
   \<and> length (auditLogs (snd (login demo_env (demo_login ''wrong'') None 1 demo_state))) = 1"
  by (simp add: service_defs demo_defs Let_def)

text \<open>
  Claim C9. For every request (registration, Authenticate, Rotate, Revoke), at every
  instant and in every store, what the caller gets back, exception or value, is the same
  whether the insert into the audit table fails or succeeds, and so is the store apart
  from the audit table itself: a failed audit write neither aborts the operation nor
  undoes any of its writes.
\<close>

theorem audit_failure_never_aborts:
  "response (with_audit_failure True q) now s = response (with_audit_failure False q) now s
   \<and> without_auditLogs (serve (with_audit_failure True q) now s)
       = without_auditLogs (serve (with_audit_failure False q) now s)"
proof (cases q)
  case (Register env dto)
  then show ?thesis
    using register_audit_flag[where b = True and env = env and dto = dto and now = now and s = s]
      register_audit_flag[where b = False and env = env and dto = dto and now = now and s = s]
    by simp
next
  case (Login env dto ip)
  then show ?thesis
    using login_audit_flag[where b = True and env = env and dto = dto and ip = ip and now = now and s = s]
      login_audit_flag[where b = False and env = env and dto = dto and ip = ip and now = now and s = s]
    by simp
next
  case (Refresh env tok)
  then show ?thesis by (simp add: refreshToken_audit_flag)
next
  case (Logout tok)
  then show ?thesis by simp
qed


end
